theory Spec2Isabelle
  imports Complex_Main "HOL-Library.Word"
begin

section \<open>Data model of \<open>src/tools/github.ts\<close>\<close>

text \<open>
  The file holds three successive snapshots of the class \<open>GitHubTool\<close>; the last one
  (the superset, with the archive and history operations) is the one embedded here.
  Field names carry a prefix, since the interfaces share \<open>name\<close>, \<open>path\<close>, \<open>sha\<close>, ...
\<close>

type_synonym byte = "8 word"

record Repository =
  repo_id :: int
  repo_name :: string
  repo_full_name :: string
  repo_description :: "string option"
  repo_private :: bool
  repo_html_url :: string
  repo_clone_url :: string
  repo_default_branch :: string
  repo_language :: "string option"
  repo_stargazers_count :: int
  repo_forks_count :: int
  repo_size :: int
  repo_created_at :: string
  repo_updated_at :: string

record FileContent =
  fc_name :: string
  fc_path :: string
  fc_content :: string
  fc_encoding :: string
  fc_size :: int
  fc_sha :: string

text \<open>\<open>type: 'file' | 'dir' | 'symlink' | 'submodule'\<close>\<close>

datatype ContentType = File | Dir | Symlink | Submodule

record DirectoryContent =
  dc_name :: string
  dc_path :: string
  dc_type :: ContentType
  dc_size :: "int option"
  dc_sha :: string
  dc_url :: string
  dc_html_url :: "string option"
  dc_download_url :: "string option"

datatype SortKey = updated | stars | forks

datatype SortOrder = asc | desc

record SearchOptions =
  so_per_page :: "int option"
  so_page :: "int option"
  so_sort :: "SortKey option"
  so_order :: "SortOrder option"

record RepositorySummary =
  rs_id :: int
  rs_name :: string
  rs_full_name :: string
  rs_html_url :: string

record CodeSearchResult =
  csr_name :: string
  csr_path :: string
  csr_sha :: string
  csr_url :: string
  csr_html_url :: string
  csr_repository :: RepositorySummary
  csr_score :: real

record GitUser =
  gu_name :: string
  gu_email :: string
  gu_date :: string

record Commit =
  commit_sha :: string
  commit_message :: string
  commit_author :: GitUser
  commit_committer :: GitUser
  commit_url :: string
  commit_html_url :: string

text \<open>\<open>format: 'tarball' | 'zipball'\<close>\<close>

datatype ArchiveFormat = tarball | zipball

record RepositoryArchive =
  ra_downloadUrl :: string
  ra_filename :: string
  ra_ref :: string
  ra_format :: ArchiveFormat

text \<open>
  \<open>GitHubError extends Error\<close>: the message of the JavaScript \<open>Error\<close>, an optional
  numeric \<open>status\<close> and an optional \<open>response\<close> with an optional \<open>data\<close> with an
  optional \<open>message\<close>. Everything a \<open>catch\<close> block receives is read through this type
  (\<open>error as GitHubError\<close>).
\<close>

record ResponseData =
  data_message :: "string option"
  data_documentation_url :: "string option"

record ErrorResponse =
  data :: "ResponseData option"

record GitHubError =
  status :: "int option"
  response :: "ErrorResponse option"
  message :: string

text \<open>\<open>new Error(msg)\<close>: a message and neither \<open>status\<close> nor \<open>response\<close>.\<close>

definition Error :: "string \<Rightarrow> GitHubError" where
  "Error msg = \<lparr>status = None, response = None, message = msg\<rparr>"

section \<open>The remote side\<close>

text \<open>
  What the remote API delivers. \<open>repos.getContent\<close> answers with an array (a directory
  listing) or with a single object; the single object of a file carries \<open>content\<close> and
  \<open>encoding\<close>.
\<close>

record ContentObject =
  co_type :: ContentType
  co_name :: string
  co_path :: string
  co_content :: string
  co_encoding :: string
  co_size :: int
  co_sha :: string

datatype ContentResponse = Listing "DirectoryContent list" | Single ContentObject

record RemoteGitUser =
  rgu_name :: "string option"
  rgu_email :: "string option"
  rgu_date :: "string option"

record RemoteCommit =
  rc_sha :: string
  rc_message :: string
  rc_author :: "RemoteGitUser option"
  rc_committer :: "RemoteGitUser option"
  rc_url :: string
  rc_html_url :: string

text \<open>The response of the global \<open>fetch\<close>; reading the body (\<open>arrayBuffer()\<close>) may fail.\<close>

record FetchResponse =
  fr_ok :: bool
  fr_statusText :: string
  fr_arrayBuffer :: "GitHubError + byte list"

text \<open>The requests the facade can send, with the parameters it passes.\<close>

datatype Request =
    ReposGet string string
  | ReposGetContent string string string "string option"
  | SearchRepos string int int "SortKey option" "SortOrder option"
  | SearchCode string int
  | ReposDownloadArchive string string ArchiveFormat string
  | Fetch string
  | ReposListCommits string string string int int
  | ReposGetCommit string string string
  | ReposCompareCommits string string string string

text \<open>
  The environment of a \<open>GitHubTool\<close>: the endpoints of its \<open>octokit\<close> client, the global
  \<open>fetch\<close>, and Node's \<open>Buffer.from(s, 'base64').toString('utf-8')\<close>, which is library
  code and stays a parameter. Each endpoint either throws (\<open>Inl\<close>) or delivers its
  payload; the remote is taken as a snapshot, the same request has the same answer.
\<close>

record Env =
  repos_get :: "string \<Rightarrow> string \<Rightarrow> GitHubError + Repository"
  repos_getContent :: "string \<Rightarrow> string \<Rightarrow> string \<Rightarrow> string option \<Rightarrow> GitHubError + ContentResponse"
  search_repos :: "string \<Rightarrow> int \<Rightarrow> int \<Rightarrow> SortKey option \<Rightarrow> SortOrder option \<Rightarrow> GitHubError + Repository list"
  search_code :: "string \<Rightarrow> int \<Rightarrow> GitHubError + CodeSearchResult list"
  repos_downloadArchive :: "string \<Rightarrow> string \<Rightarrow> ArchiveFormat \<Rightarrow> string \<Rightarrow> GitHubError + string"
  fetch :: "string \<Rightarrow> GitHubError + FetchResponse"
  repos_listCommits :: "string \<Rightarrow> string \<Rightarrow> string \<Rightarrow> int \<Rightarrow> int \<Rightarrow> GitHubError + RemoteCommit list"
  repos_getCommit :: "string \<Rightarrow> string \<Rightarrow> string \<Rightarrow> GitHubError + string"
  repos_compareCommits :: "string \<Rightarrow> string \<Rightarrow> string \<Rightarrow> string \<Rightarrow> GitHubError + string"
  base64_utf8 :: "string \<Rightarrow> string"

text \<open>
  An operation yields the requests it sent, in order, and either the error it throws
  (\<open>Inl\<close>) or the value it returns (\<open>Inr\<close>).
\<close>

type_synonym 'a outcome = "Request list \<times> (GitHubError + 'a)"

section \<open>JavaScript operators used by the facade\<close>

text \<open>\<open>s || d\<close> on an optional string: \<open>undefined\<close> and the empty string are falsy.\<close>

definition or_string :: "string option \<Rightarrow> string \<Rightarrow> string" where
  "or_string s d = (case s of None \<Rightarrow> d | Some v \<Rightarrow> if v = [] then d else v)"

text \<open>\<open>n || d\<close> on an optional number: \<open>undefined\<close> and \<open>0\<close> are falsy.\<close>

definition or_number :: "int option \<Rightarrow> int \<Rightarrow> int" where
  "or_number n d = (case n of None \<Rightarrow> d | Some v \<Rightarrow> if v = 0 then d else v)"

text \<open>Truthiness of an optional string, as in \<open>if (owner && repo)\<close>.\<close>

definition truthy :: "string option \<Rightarrow> bool" where
  "truthy s = (case s of None \<Rightarrow> False | Some v \<Rightarrow> v \<noteq> [])"

text \<open>The value of an optional string in a template literal that is only reached when it is truthy.\<close>

definition str :: "string option \<Rightarrow> string" where
  "str s = (case s of None \<Rightarrow> ''undefined'' | Some v \<Rightarrow> v)"

text \<open>A default parameter value (\<open>path = ''\<close>, \<open>format = 'zipball'\<close>, \<open>options = {}\<close>).\<close>

definition default_to :: "'a \<Rightarrow> 'a option \<Rightarrow> 'a" where
  "default_to d x = (case x of None \<Rightarrow> d | Some v \<Rightarrow> v)"

section \<open>Error normalization\<close>

text \<open>\<open>error.response?.data?.message\<close>\<close>

definition response_data_message :: "GitHubError \<Rightarrow> string option" where
  "response_data_message error =
     (case response error of
        None \<Rightarrow> None
      | Some r \<Rightarrow> (case data r of None \<Rightarrow> None | Some d \<Rightarrow> data_message d))"

definition handleError :: "GitHubError \<Rightarrow> GitHubError" where
  "handleError error =
     (if status error = Some 404 then
        Error (''Resource not found: '' @ or_string (response_data_message error) ''Not found'')
      else if status error = Some 401 then
        Error ''Authentication failed. Check your GitHub token.''
      else if status error = Some 403 then
        Error (''Access forbidden: '' @ or_string (response_data_message error) ''Forbidden'')
      else if status error = Some 422 then
        Error (''Invalid request: '' @ or_string (response_data_message error) ''Unprocessable entity'')
      else Error (''GitHub API error: '' @ message error))"

text \<open>\<open>try { ... } catch (error) { throw this.handleError(error as GitHubError); }\<close>\<close>

definition try_catch :: "GitHubError + 'a \<Rightarrow> GitHubError + 'a" where
  "try_catch body = (case body of Inl error \<Rightarrow> Inl (handleError error) | Inr v \<Rightarrow> Inr v)"

section \<open>Operations of \<open>GitHubTool\<close>\<close>

definition getRepository :: "Env \<Rightarrow> string \<Rightarrow> string \<Rightarrow> Repository outcome" where
  "getRepository env owner repo =
     ([ReposGet owner repo],
      try_catch
        (case repos_get env owner repo of
           Inl error \<Rightarrow> Inl error
         | Inr d \<Rightarrow>
             Inr \<lparr>repo_id = repo_id d, repo_name = repo_name d, repo_full_name = repo_full_name d,
                  repo_description = repo_description d, repo_private = repo_private d,
                  repo_html_url = repo_html_url d, repo_clone_url = repo_clone_url d,
                  repo_default_branch = repo_default_branch d, repo_language = repo_language d,
                  repo_stargazers_count = repo_stargazers_count d,
                  repo_forks_count = repo_forks_count d, repo_size = repo_size d,
                  repo_created_at = repo_created_at d, repo_updated_at = repo_updated_at d\<rparr>))"

text \<open>The double quote of the messages \<open>Path "..." is ...\<close>.\<close>

definition quoted :: "string \<Rightarrow> string" where
  "quoted s = [CHR 0x22] @ s @ [CHR 0x22]"

definition getFileContent :: "Env \<Rightarrow> string \<Rightarrow> string \<Rightarrow> string \<Rightarrow> string option \<Rightarrow> FileContent outcome" where
  "getFileContent env owner repo path ref =
     ([ReposGetContent owner repo path ref],
      try_catch
        (case repos_getContent env owner repo path ref of
           Inl error \<Rightarrow> Inl error
         | Inr (Listing items) \<Rightarrow>
             Inl (Error (''Path '' @ quoted path @ '' is a directory, not a file''))
         | Inr (Single d) \<Rightarrow>
             if co_type d \<noteq> File then
               Inl (Error (''Path '' @ quoted path @ '' is not a file''))
             else
               Inr \<lparr>fc_name = co_name d, fc_path = co_path d,
                    fc_content =
                      (if co_encoding d = ''base64'' then base64_utf8 env (co_content d)
                       else co_content d),
                    fc_encoding = co_encoding d, fc_size = co_size d, fc_sha = co_sha d\<rparr>))"

definition downloadFile :: "Env \<Rightarrow> string \<Rightarrow> string \<Rightarrow> string \<Rightarrow> string option \<Rightarrow> FileContent outcome" where
  "downloadFile env owner repo path ref = getFileContent env owner repo path ref"

definition getRepositoryContents ::
  "Env \<Rightarrow> string \<Rightarrow> string \<Rightarrow> string option \<Rightarrow> string option \<Rightarrow> DirectoryContent list outcome" where
  "getRepositoryContents env owner repo path_opt ref =
     (let path = default_to [] path_opt in
      ([ReposGetContent owner repo path ref],
       try_catch
         (case repos_getContent env owner repo path ref of
            Inl error \<Rightarrow> Inl error
          | Inr (Single d) \<Rightarrow>
              Inl (Error (''Path '' @ quoted path @ '' is a file, not a directory''))
          | Inr (Listing items) \<Rightarrow>
              Inr (map (\<lambda>item.
                     \<lparr>dc_name = dc_name item, dc_path = dc_path item, dc_type = dc_type item,
                      dc_size = dc_size item, dc_sha = dc_sha item, dc_url = dc_url item,
                      dc_html_url = dc_html_url item,
                      dc_download_url = dc_download_url item\<rparr>) items))))"

text \<open>
  \<open>downloadDirectory\<close> calls itself for every entry of kind \<open>dir\<close>; nothing in the code
  bounds the depth, which is the remote's. The first argument is the number of nested
  calls allowed, \<open>None\<close> means that it did not suffice. The second function is the
  \<open>for (const item of contents)\<close> loop, with the array \<open>files\<close> collected so far; a
  \<open>throw\<close> inside it leaves the loop for the \<open>catch\<close> of the enclosing call.
\<close>

fun downloadDirectory ::
    "nat \<Rightarrow> Env \<Rightarrow> string \<Rightarrow> string \<Rightarrow> string option \<Rightarrow> string option \<Rightarrow> FileContent list outcome option"
  and downloadDirectory_loop ::
    "nat \<Rightarrow> Env \<Rightarrow> string \<Rightarrow> string \<Rightarrow> string option \<Rightarrow> DirectoryContent list \<Rightarrow> FileContent list
       \<Rightarrow> FileContent list outcome option" where
  "downloadDirectory 0 env owner repo path ref = None"
| "downloadDirectory (Suc n) env owner repo path ref =
     (case getRepositoryContents env owner repo path ref of
        (t, Inl error) \<Rightarrow> Some (t, Inl (handleError error))
      | (t, Inr contents) \<Rightarrow>
          (case downloadDirectory_loop n env owner repo ref contents [] of
             None \<Rightarrow> None
           | Some (t', Inl error) \<Rightarrow> Some (t @ t', Inl (handleError error))
           | Some (t', Inr files) \<Rightarrow> Some (t @ t', Inr files)))"
| "downloadDirectory_loop n env owner repo ref [] files = Some ([], Inr files)"
| "downloadDirectory_loop n env owner repo ref (item # items) files =
     (if dc_type item = File then
        (case downloadFile env owner repo (dc_path item) ref of
           (t, Inl error) \<Rightarrow> Some (t, Inl error)
         | (t, Inr fileContent) \<Rightarrow>
             (case downloadDirectory_loop n env owner repo ref items (files @ [fileContent]) of
                None \<Rightarrow> None
              | Some (t', r) \<Rightarrow> Some (t @ t', r)))
      else if dc_type item = Dir then
        (case downloadDirectory n env owner repo (Some (dc_path item)) ref of
           None \<Rightarrow> None
         | Some (t, Inl error) \<Rightarrow> Some (t, Inl error)
         | Some (t, Inr dirFiles) \<Rightarrow>
             (case downloadDirectory_loop n env owner repo ref items (files @ dirFiles) of
                None \<Rightarrow> None
              | Some (t', r) \<Rightarrow> Some (t @ t', r)))
      else downloadDirectory_loop n env owner repo ref items files)"

definition searchRepositories :: "Env \<Rightarrow> string \<Rightarrow> SearchOptions option \<Rightarrow> Repository list outcome" where
  "searchRepositories env query options_opt =
     (let options = default_to \<lparr>so_per_page = None, so_page = None, so_sort = None, so_order = None\<rparr>
                      options_opt;
          per_page = or_number (so_per_page options) 30;
          page = or_number (so_page options) 1
      in ([SearchRepos query per_page page (so_sort options) (so_order options)],
          try_catch
            (case search_repos env query per_page page (so_sort options) (so_order options) of
               Inl error \<Rightarrow> Inl error
             | Inr items \<Rightarrow>
                 Inr (map (\<lambda>item.
                        \<lparr>repo_id = repo_id item, repo_name = repo_name item,
                         repo_full_name = repo_full_name item,
                         repo_description = repo_description item,
                         repo_private = repo_private item, repo_html_url = repo_html_url item,
                         repo_clone_url = repo_clone_url item,
                         repo_default_branch = repo_default_branch item,
                         repo_language = repo_language item,
                         repo_stargazers_count = repo_stargazers_count item,
                         repo_forks_count = repo_forks_count item, repo_size = repo_size item,
                         repo_created_at = repo_created_at item,
                         repo_updated_at = repo_updated_at item\<rparr>) items))))"

definition searchCode :: "Env \<Rightarrow> string \<Rightarrow> string option \<Rightarrow> string option \<Rightarrow> CodeSearchResult list outcome" where
  "searchCode env query owner repo =
     (let searchQuery =
            (if truthy owner \<and> truthy repo then query @ '' repo:'' @ str owner @ ''/'' @ str repo
             else if truthy owner then query @ '' user:'' @ str owner
             else query)
      in ([SearchCode searchQuery 30],
          try_catch
            (case search_code env searchQuery 30 of
               Inl error \<Rightarrow> Inl error
             | Inr items \<Rightarrow>
                 Inr (map (\<lambda>item.
                        \<lparr>csr_name = csr_name item, csr_path = csr_path item, csr_sha = csr_sha item,
                         csr_url = csr_url item, csr_html_url = csr_html_url item,
                         csr_repository =
                           \<lparr>rs_id = rs_id (csr_repository item),
                            rs_name = rs_name (csr_repository item),
                            rs_full_name = rs_full_name (csr_repository item),
                            rs_html_url = rs_html_url (csr_repository item)\<rparr>,
                         csr_score = csr_score item\<rparr>) items))))"

definition getRepositoryArchive ::
  "Env \<Rightarrow> string \<Rightarrow> string \<Rightarrow> ArchiveFormat option \<Rightarrow> string option \<Rightarrow> RepositoryArchive outcome" where
  "getRepositoryArchive env owner repo format_opt ref =
     (let format = default_to zipball format_opt in
      ([ReposDownloadArchive owner repo format (or_string ref ''HEAD'')],
       try_catch
         (case repos_downloadArchive env owner repo format (or_string ref ''HEAD'') of
            Inl error \<Rightarrow> Inl error
          | Inr url \<Rightarrow>
              Inr \<lparr>ra_downloadUrl = url,
                   ra_filename =
                     repo @ ''-'' @ or_string ref ''HEAD'' @ ''.''
                       @ (if format = zipball then ''zip'' else ''tar.gz''),
                   ra_ref = or_string ref ''HEAD'',
                   ra_format = format\<rparr>)))"

definition downloadRepositoryArchive ::
  "Env \<Rightarrow> string \<Rightarrow> string \<Rightarrow> ArchiveFormat option \<Rightarrow> string option \<Rightarrow> byte list outcome" where
  "downloadRepositoryArchive env owner repo format_opt ref =
     (let format = default_to zipball format_opt in
      case getRepositoryArchive env owner repo (Some format) ref of
        (t, Inl error) \<Rightarrow> (t, Inl (handleError error))
      | (t, Inr archive) \<Rightarrow>
          (t @ [Fetch (ra_downloadUrl archive)],
           try_catch
             (case fetch env (ra_downloadUrl archive) of
                Inl error \<Rightarrow> Inl error
              | Inr resp \<Rightarrow>
                  if \<not> fr_ok resp then
                    Inl (Error (''Failed to download archive: '' @ fr_statusText resp))
                  else fr_arrayBuffer resp)))"

record HistoryOptions =
  ho_per_page :: "int option"
  ho_page :: "int option"

text \<open>\<open>commit.commit.author?.name || ''\<close>\<close>

definition git_user :: "RemoteGitUser option \<Rightarrow> GitUser" where
  "git_user u =
     \<lparr>gu_name = or_string (case u of None \<Rightarrow> None | Some a \<Rightarrow> rgu_name a) [],
      gu_email = or_string (case u of None \<Rightarrow> None | Some a \<Rightarrow> rgu_email a) [],
      gu_date = or_string (case u of None \<Rightarrow> None | Some a \<Rightarrow> rgu_date a) []\<rparr>"

definition getFileHistory ::
  "Env \<Rightarrow> string \<Rightarrow> string \<Rightarrow> string \<Rightarrow> HistoryOptions option \<Rightarrow> Commit list outcome" where
  "getFileHistory env owner repo path options_opt =
     (let options = default_to \<lparr>ho_per_page = None, ho_page = None\<rparr> options_opt;
          per_page = or_number (ho_per_page options) 30;
          page = or_number (ho_page options) 1
      in ([ReposListCommits owner repo path per_page page],
          try_catch
            (case repos_listCommits env owner repo path per_page page of
               Inl error \<Rightarrow> Inl error
             | Inr d \<Rightarrow>
                 Inr (map (\<lambda>commit.
                        \<lparr>commit_sha = rc_sha commit, commit_message = rc_message commit,
                         commit_author = git_user (rc_author commit),
                         commit_committer = git_user (rc_committer commit),
                         commit_url = rc_url commit,
                         commit_html_url = rc_html_url commit\<rparr>) d))))"

definition getCommitDiff :: "Env \<Rightarrow> string \<Rightarrow> string \<Rightarrow> string \<Rightarrow> string outcome" where
  "getCommitDiff env owner repo ref =
     ([ReposGetCommit owner repo ref],
      try_catch (case repos_getCommit env owner repo ref of Inl error \<Rightarrow> Inl error | Inr d \<Rightarrow> Inr d))"

definition compareCommits :: "Env \<Rightarrow> string \<Rightarrow> string \<Rightarrow> string \<Rightarrow> string \<Rightarrow> string outcome" where
  "compareCommits env owner repo base head =
     ([ReposCompareCommits owner repo base head],
      try_catch
        (case repos_compareCommits env owner repo base head of
           Inl error \<Rightarrow> Inl error
         | Inr d \<Rightarrow> Inr d))"

section \<open>The remote directory tree\<close>

text \<open>
  The hierarchy the remote serves below a path, as the specification speaks of it: a
  listing entry together with, for a directory, the trees of its own listing.
\<close>

datatype Tree = Leaf DirectoryContent | Node DirectoryContent "Tree list"

fun entry :: "Tree \<Rightarrow> DirectoryContent" where
  "entry (Leaf d) = d"
| "entry (Node d ts) = d"

text \<open>
  The remote serves the tree: an entry of kind \<open>dir\<close> is a node, its path is answered
  with the listing of its children, and every other entry is a leaf.
\<close>

fun tree_at :: "Env \<Rightarrow> string \<Rightarrow> string \<Rightarrow> string option \<Rightarrow> Tree \<Rightarrow> bool" where
  "tree_at env owner repo ref (Leaf d) = (dc_type d \<noteq> Dir)"
| "tree_at env owner repo ref (Node d ts) =
     (dc_type d = Dir
      \<and> repos_getContent env owner repo (dc_path d) ref = Inr (Listing (map entry ts))
      \<and> list_all (tree_at env owner repo ref) ts)"

text \<open>The paths of the entries of kind \<open>file\<close>, depth first, in listing order.\<close>

fun files_of :: "Tree \<Rightarrow> string list" where
  "files_of (Leaf d) = (if dc_type d = File then [dc_path d] else [])"
| "files_of (Node d ts) = concat (map files_of ts)"

text \<open>The number of entries of kind \<open>file\<close> in a tree.\<close>

fun file_count :: "Tree \<Rightarrow> nat" where
  "file_count (Leaf d) = (if dc_type d = File then 1 else 0)"
| "file_count (Node d ts) = sum_list (map file_count ts)"

text \<open>The requests of a depth-first walk: one per file, one per directory, none for the rest.\<close>

fun visits :: "string \<Rightarrow> string \<Rightarrow> string option \<Rightarrow> Tree \<Rightarrow> Request list" where
  "visits owner repo ref (Leaf d) =
     (if dc_type d = File then [ReposGetContent owner repo (dc_path d) ref] else [])"
| "visits owner repo ref (Node d ts) =
     ReposGetContent owner repo (dc_path d) ref # concat (map (visits owner repo ref) ts)"

primrec max_list :: "nat list \<Rightarrow> nat" where
  "max_list [] = 0"
| "max_list (x # xs) = max x (max_list xs)"

text \<open>The number of nested directory levels of a tree.\<close>

fun depth :: "Tree \<Rightarrow> nat" where
  "depth (Leaf d) = 0"
| "depth (Node d ts) = Suc (max_list (map depth ts))"

section \<open>Failures of the remote\<close>

text \<open>The error, if any, with which the environment answers a request.\<close>

definition thrown :: "GitHubError + 'a \<Rightarrow> GitHubError option" where
  "thrown r = (case r of Inl error \<Rightarrow> Some error | Inr v \<Rightarrow> None)"

fun remote_error :: "Env \<Rightarrow> Request \<Rightarrow> GitHubError option" where
  "remote_error env (ReposGet owner repo) = thrown (repos_get env owner repo)"
| "remote_error env (ReposGetContent owner repo path ref) =
     thrown (repos_getContent env owner repo path ref)"
| "remote_error env (SearchRepos q per_page page srt ord) =
     thrown (search_repos env q per_page page srt ord)"
| "remote_error env (SearchCode q per_page) = thrown (search_code env q per_page)"
| "remote_error env (ReposDownloadArchive owner repo format ref) =
     thrown (repos_downloadArchive env owner repo format ref)"
| "remote_error env (Fetch url) = thrown (fetch env url)"
| "remote_error env (ReposListCommits owner repo path per_page page) =
     thrown (repos_listCommits env owner repo path per_page page)"
| "remote_error env (ReposGetCommit owner repo ref) = thrown (repos_getCommit env owner repo ref)"
| "remote_error env (ReposCompareCommits owner repo base head) =
     thrown (repos_compareCommits env owner repo base head)"

section \<open>A concrete remote for the examples\<close>

text \<open>
  A decoder of the standard base64 alphabet (decoding ends at the padding), which stands
  for the library's decoder in the examples; text is held as its UTF-8 bytes.
\<close>

definition sextet :: "char \<Rightarrow> nat option" where
  "sextet c =
     (let k = (of_char c :: nat) in
      if 65 \<le> k \<and> k \<le> 90 then Some (k - 65)
      else if 97 \<le> k \<and> k \<le> 122 then Some (k - 71)
      else if 48 \<le> k \<and> k \<le> 57 then Some (k + 4)
      else if k = 43 then Some 62
      else if k = 47 then Some 63
      else None)"

fun octets :: "nat list \<Rightarrow> nat list" where
  "octets (a # b # c # d # rest) =
     [4 * a + b div 16, 16 * (b mod 16) + c div 4, 64 * (c mod 4) + d] @ octets rest"
| "octets [a, b, c] = [4 * a + b div 16, 16 * (b mod 16) + c div 4]"
| "octets [a, b] = [4 * a + b div 16]"
| "octets rest = []"

definition example_base64 :: "string \<Rightarrow> string" where
  "example_base64 s =
     map char_of (octets (List.map_filter sextet (takeWhile (\<lambda>c. c \<noteq> CHR ''='') s)))"

text \<open>The remote's answer to a path that does not exist.\<close>

definition example_404 :: GitHubError where
  "example_404 =
     \<lparr>status = Some 404,
      response = Some \<lparr>data = Some \<lparr>data_message = Some ''Not Found'',
                                     data_documentation_url = None\<rparr>\<rparr>,
      message = ''Not Found''\<rparr>"

definition example_entry :: "string \<Rightarrow> string \<Rightarrow> ContentType \<Rightarrow> DirectoryContent" where
  "example_entry name path ty =
     \<lparr>dc_name = name, dc_path = path, dc_type = ty, dc_size = None, dc_sha = ''sha:'' @ path,
      dc_url = ''https://api.example/'' @ path, dc_html_url = None, dc_download_url = None\<rparr>"

definition example_object :: "string \<Rightarrow> string \<Rightarrow> string \<Rightarrow> string \<Rightarrow> ContentObject" where
  "example_object name path enc body =
     \<lparr>co_type = File, co_name = name, co_path = path, co_content = body, co_encoding = enc,
      co_size = int (length body), co_sha = ''sha:'' @ path\<rparr>"

text \<open>
  A repository of depth 2 with three files, a symbolic link and a submodule:
  \<open>README.md\<close>, \<open>src/a.ts\<close>, \<open>src/lib/b.ts\<close>, \<open>latest\<close>, \<open>vendor\<close>. Under the ref
  \<open>broken\<close> the file \<open>src/a.ts\<close> cannot be read (status 500).
\<close>

definition example_500 :: GitHubError where
  "example_500 = \<lparr>status = Some 500, response = None, message = ''Server Error''\<rparr>"

definition example_getContent ::
  "string \<Rightarrow> string \<Rightarrow> string \<Rightarrow> string option \<Rightarrow> GitHubError + ContentResponse" where
  "example_getContent owner repo path ref =
     (if path = [] then
        Inr (Listing [example_entry ''README.md'' ''README.md'' File,
                      example_entry ''src'' ''src'' Dir,
                      example_entry ''latest'' ''latest'' Symlink,
                      example_entry ''vendor'' ''vendor'' Submodule])
      else if path = ''src'' then
        Inr (Listing [example_entry ''a.ts'' ''src/a.ts'' File,
                      example_entry ''lib'' ''src/lib'' Dir])
      else if path = ''src/lib'' then
        Inr (Listing [example_entry ''b.ts'' ''src/lib/b.ts'' File])
      else if path = ''README.md'' then
        Inr (Single (example_object ''README.md'' ''README.md'' ''base64'' ''aGk=''))
      else if path = ''src/a.ts'' then
        (if ref = Some ''broken'' then Inl example_500
         else Inr (Single (example_object ''a.ts'' ''src/a.ts'' ''base64'' ''YQ=='')))
      else if path = ''src/lib/b.ts'' then
        Inr (Single (example_object ''b.ts'' ''src/lib/b.ts'' ''none'' ''plain''))
      else Inl example_404)"

definition example_env :: Env where
  "example_env =
     \<lparr>repos_get = (\<lambda>owner repo. Inl example_404),
      repos_getContent = example_getContent,
      search_repos = (\<lambda>q per_page page srt ord. Inr []),
      search_code = (\<lambda>q per_page. Inr []),
      repos_downloadArchive =
        (\<lambda>owner repo format ref. Inr (''https://codeload.example/'' @ repo @ ''/'' @ ref)),
      fetch =
        (\<lambda>url. Inr \<lparr>fr_ok = (url = ''https://codeload.example/r/HEAD''),
                     fr_statusText =
                       (if url = ''https://codeload.example/r/HEAD'' then ''OK'' else ''Forbidden''),
                     fr_arrayBuffer = Inr [0x50, 0x4B]\<rparr>),
      repos_listCommits = (\<lambda>owner repo path per_page page. Inr []),
      repos_getCommit = (\<lambda>owner repo ref. Inr ''diff''),
      repos_compareCommits = (\<lambda>owner repo base head. Inr ''diff''),
      base64_utf8 = example_base64\<rparr>"

definition example_tree :: "Tree list" where
  "example_tree =
     [Leaf (example_entry ''README.md'' ''README.md'' File),
      Node (example_entry ''src'' ''src'' Dir)
        [Leaf (example_entry ''a.ts'' ''src/a.ts'' File),
         Node (example_entry ''lib'' ''src/lib'' Dir)
           [Leaf (example_entry ''b.ts'' ''src/lib/b.ts'' File)]],
      Leaf (example_entry ''latest'' ''latest'' Symlink),
      Leaf (example_entry ''vendor'' ''vendor'' Submodule)]"

definition example_files :: "string \<Rightarrow> FileContent" where
  "example_files path =
     (if path = ''README.md'' then
        \<lparr>fc_name = ''README.md'', fc_path = ''README.md'', fc_content = ''hi'',
         fc_encoding = ''base64'', fc_size = 4, fc_sha = ''sha:README.md''\<rparr>
      else if path = ''src/a.ts'' then
        \<lparr>fc_name = ''a.ts'', fc_path = ''src/a.ts'', fc_content = ''a'',
         fc_encoding = ''base64'', fc_size = 4, fc_sha = ''sha:src/a.ts''\<rparr>
      else
        \<lparr>fc_name = ''b.ts'', fc_path = ''src/lib/b.ts'', fc_content = ''plain'',
         fc_encoding = ''none'', fc_size = 5, fc_sha = ''sha:src/lib/b.ts''\<rparr>)"

section \<open>Auxiliary facts\<close>

subsection \<open>JavaScript operators and error normalization\<close>

lemma or_string_simps:
  "or_string None d = d" "or_string (Some []) d = d" "or_string (Some (c # cs)) d = c # cs"
  by (simp_all add: or_string_def)

lemma default_to_simps: "default_to d None = d" "default_to d (Some v) = v"
  by (simp_all add: default_to_def)

lemma handleError_status: "status (handleError e) = None"
  by (simp add: handleError_def Error_def)


lemma handleError_Error: "handleError (Error m) = Error (''GitHub API error: '' @ m)"
  by (simp add: handleError_def Error_def)

lemma handleError_twice:
  "handleError (handleError e) = Error (''GitHub API error: '' @ message (handleError e))"
  by (simp add: handleError_def [of "handleError e"] handleError_status)

lemma normalized_again:
  assumes "\<exists>e'. e = handleError e'"
  shows "handleError e = Error (''GitHub API error: '' @ message e)"
  using assms handleError_twice by blast

lemma try_catch_simps:
  "try_catch (Inl e) = Inl (handleError e)" "try_catch (Inr v) = Inr v"
  by (simp_all add: try_catch_def)

lemma try_catch_Inl: "try_catch r = Inl e \<Longrightarrow> \<exists>e'. r = Inl e' \<and> e = handleError e'"
  by (cases r) (simp_all add: try_catch_def)

lemma thrown_Some: "thrown r = Some e \<longleftrightarrow> r = Inl e"
  by (cases r) (simp_all add: thrown_def)

lemma thrown_None: "thrown r = None \<longleftrightarrow> (\<exists>v. r = Inr v)"
  by (cases r) (simp_all add: thrown_def)

subsection \<open>Single operations\<close>

lemma rebuild_entry:
  "\<lparr>dc_name = dc_name item, dc_path = dc_path item, dc_type = dc_type item,
    dc_size = dc_size item, dc_sha = dc_sha item, dc_url = dc_url item,
    dc_html_url = dc_html_url item, dc_download_url = dc_download_url item\<rparr> = item"
  by simp

lemma rebuild_code_result:
  "\<lparr>csr_name = csr_name item, csr_path = csr_path item, csr_sha = csr_sha item,
    csr_url = csr_url item, csr_html_url = csr_html_url item,
    csr_repository =
      \<lparr>rs_id = rs_id (csr_repository item), rs_name = rs_name (csr_repository item),
       rs_full_name = rs_full_name (csr_repository item),
       rs_html_url = rs_html_url (csr_repository item)\<rparr>,
    csr_score = csr_score item\<rparr> = item"
  by simp

lemma getRepositoryContents_trace:
  "fst (getRepositoryContents env owner repo path ref)
     = [ReposGetContent owner repo (default_to [] path) ref]"
  by (simp add: getRepositoryContents_def Let_def)

lemma getRepositoryContents_listing:
  "repos_getContent env owner repo (default_to [] path) ref = Inr (Listing items)
   \<Longrightarrow> getRepositoryContents env owner repo path ref
       = ([ReposGetContent owner repo (default_to [] path) ref], Inr items)"
  by (simp add: getRepositoryContents_def try_catch_def Let_def rebuild_entry)

lemma getRepositoryContents_Inr:
  assumes "snd (getRepositoryContents env owner repo dir ref) = Inr entries"
  shows "repos_getContent env owner repo (default_to [] dir) ref = Inr (Listing entries)"
proof (cases "repos_getContent env owner repo (default_to [] dir) ref")
  case (Inl e)
  with assms show ?thesis by (simp add: getRepositoryContents_def Let_def try_catch_simps)
next
  case (Inr resp)
  show ?thesis
  proof (cases resp)
    case (Listing items)
    with Inr assms show ?thesis
      by (simp add: getRepositoryContents_def Let_def try_catch_simps rebuild_entry)
  next
    case (Single obj)
    with Inr assms show ?thesis
      by (simp add: getRepositoryContents_def Let_def try_catch_simps)
  qed
qed

lemma getRepositoryContents_failure:
  "snd (getRepositoryContents env owner repo path ref) = Inl e \<Longrightarrow> \<exists>e'. e = handleError e'"
  by (auto simp add: getRepositoryContents_def Let_def dest!: try_catch_Inl)

lemma getRepositoryContents_result:
  assumes "getRepositoryContents env owner repo path ref = (t, r)"
  shows "t = [ReposGetContent owner repo (default_to [] path) ref]"
    and "r = Inr v \<Longrightarrow> remote_error env (ReposGetContent owner repo (default_to [] path) ref) = None"
    and "r = Inl e \<Longrightarrow> remote_error env (ReposGetContent owner repo (default_to [] path) ref) = Some err
           \<Longrightarrow> e = handleError err"
proof -
  show "t = [ReposGetContent owner repo (default_to [] path) ref]"
    using assms getRepositoryContents_trace [of env owner repo path ref] by simp
  show "remote_error env (ReposGetContent owner repo (default_to [] path) ref) = None" if "r = Inr v"
    using getRepositoryContents_Inr [of env owner repo path ref v] assms that
    by (simp add: thrown_def)
  show "e = handleError err"
    if "r = Inl e" "remote_error env (ReposGetContent owner repo (default_to [] path) ref) = Some err"
    using assms that
    by (simp add: getRepositoryContents_def Let_def thrown_Some try_catch_simps)
qed

lemma getFileContent_Inr:
  assumes "snd (getFileContent env owner repo path ref) = Inr fc"
  shows "\<exists>obj. repos_getContent env owner repo path ref = Inr (Single obj) \<and> co_type obj = File
           \<and> fc = \<lparr>fc_name = co_name obj, fc_path = co_path obj,
                    fc_content =
                      (if co_encoding obj = ''base64'' then base64_utf8 env (co_content obj)
                       else co_content obj),
                    fc_encoding = co_encoding obj, fc_size = co_size obj, fc_sha = co_sha obj\<rparr>"
proof (cases "repos_getContent env owner repo path ref")
  case (Inl e)
  with assms show ?thesis by (simp add: getFileContent_def try_catch_simps)
next
  case (Inr resp)
  show ?thesis
  proof (cases resp)
    case (Listing items)
    with Inr assms show ?thesis by (simp add: getFileContent_def try_catch_simps)
  next
    case (Single obj)
    show ?thesis
    proof (cases "co_type obj = File")
      case True
      with Inr Single assms show ?thesis
        by (simp add: getFileContent_def try_catch_simps)
    next
      case False
      with Inr Single assms show ?thesis
        by (simp add: getFileContent_def try_catch_simps)
    qed
  qed
qed

lemma getFileContent_failure:
  "snd (getFileContent env owner repo path ref) = Inl e \<Longrightarrow> \<exists>e'. e = handleError e'"
  by (auto simp add: getFileContent_def dest!: try_catch_Inl)

lemma downloadFile_trace:
  "fst (downloadFile env owner repo path ref) = [ReposGetContent owner repo path ref]"
  by (simp add: downloadFile_def getFileContent_def)

lemma downloadFile_failure:
  "snd (downloadFile env owner repo path ref) = Inl e \<Longrightarrow> \<exists>e'. e = handleError e'"
  by (simp add: downloadFile_def getFileContent_failure)

lemma downloadFile_result:
  assumes "downloadFile env owner repo path ref = (t, r)"
  shows "t = [ReposGetContent owner repo path ref]"
    and "r = Inr v \<Longrightarrow> remote_error env (ReposGetContent owner repo path ref) = None"
    and "r = Inl e \<Longrightarrow> remote_error env (ReposGetContent owner repo path ref) = Some err
           \<Longrightarrow> e = handleError err"
proof -
  show "t = [ReposGetContent owner repo path ref]"
    using assms downloadFile_trace [of env owner repo path ref] by simp
  show "remote_error env (ReposGetContent owner repo path ref) = None" if "r = Inr v"
    using getFileContent_Inr [of env owner repo path ref v] assms that
    by (auto simp add: downloadFile_def thrown_def)
  show "e = handleError err"
    if "r = Inl e" "remote_error env (ReposGetContent owner repo path ref) = Some err"
    using assms that
    by (simp add: downloadFile_def getFileContent_def thrown_Some try_catch_simps)
qed

lemma getRepositoryArchive_format:
  "getRepositoryArchive env owner repo (Some (default_to zipball fmt)) ref
     = getRepositoryArchive env owner repo fmt ref"
  by (simp add: getRepositoryArchive_def default_to_def split: option.splits)

lemma getRepositoryArchive_unfold:
  "getRepositoryArchive env owner repo fmt ref
     = ([ReposDownloadArchive owner repo (default_to zipball fmt) (or_string ref ''HEAD'')],
        (case repos_downloadArchive env owner repo (default_to zipball fmt)
                (or_string ref ''HEAD'') of
           Inl e \<Rightarrow> Inl (handleError e)
         | Inr url \<Rightarrow>
             Inr \<lparr>ra_downloadUrl = url,
                  ra_filename =
                    repo @ ''-'' @ or_string ref ''HEAD'' @ ''.''
                      @ (if default_to zipball fmt = zipball then ''zip'' else ''tar.gz''),
                  ra_ref = or_string ref ''HEAD'',
                  ra_format = default_to zipball fmt\<rparr>))"
  by (simp add: getRepositoryArchive_def Let_def try_catch_def split: sum.splits)




subsection \<open>The walk of \<open>downloadDirectory\<close>\<close>

lemma max_list_le: "max_list xs \<le> n \<longleftrightarrow> (\<forall>x\<in>set xs. x \<le> n)"
  by (induction xs) auto

lemma length_files_of: "length (files_of t) = file_count t"
  by (induction t) (simp_all add: length_concat comp_def cong: map_cong)

lemma loop_walk:
  assumes rec: "\<And>d cs. \<lbrakk>tree_at env owner repo ref (Node d cs); depth (Node d cs) \<le> n;
            \<forall>q\<in>set (files_of (Node d cs)). snd (downloadFile env owner repo q ref) = Inr (f q)\<rbrakk>
          \<Longrightarrow> downloadDirectory n env owner repo (Some (dc_path d)) ref
              = Some (visits owner repo ref (Node d cs), Inr (map f (files_of (Node d cs))))"
    and "list_all (tree_at env owner repo ref) ts"
    and "\<forall>t\<in>set ts. depth t \<le> n"
    and "\<forall>q\<in>set (concat (map files_of ts)). snd (downloadFile env owner repo q ref) = Inr (f q)"
  shows "downloadDirectory_loop n env owner repo ref (map entry ts) files
           = Some (concat (map (visits owner repo ref) ts),
                   Inr (files @ map f (concat (map files_of ts))))"
  using assms(2-)
proof (induction ts arbitrary: files)
  case Nil
  then show ?case by simp
next
  case (Cons t ts)
  have rest: "downloadDirectory_loop n env owner repo ref (map entry ts) fs
           = Some (concat (map (visits owner repo ref) ts),
                   Inr (fs @ map f (concat (map files_of ts))))" for fs
    using Cons.IH [of fs] Cons.prems by simp
  show ?case
  proof (cases t)
    case (Leaf d)
    show ?thesis
    proof (cases "dc_type d = File")
      case True
      have "snd (downloadFile env owner repo (dc_path d) ref) = Inr (f (dc_path d))"
        using Cons.prems(3) Leaf True by simp
      then have "downloadFile env owner repo (dc_path d) ref
                   = ([ReposGetContent owner repo (dc_path d) ref], Inr (f (dc_path d)))"
        using downloadFile_trace [of env owner repo "dc_path d" ref]
        by (cases "downloadFile env owner repo (dc_path d) ref") simp
      then show ?thesis using Leaf True rest by simp
    next
      case False
      moreover have "dc_type d \<noteq> Dir" using Cons.prems(1) Leaf by simp
      ultimately show ?thesis using Leaf rest by simp
    qed
  next
    case (Node d cs)
    have dir: "dc_type d = Dir" using Cons.prems(1) Node by simp
    have "downloadDirectory n env owner repo (Some (dc_path d)) ref
              = Some (visits owner repo ref (Node d cs), Inr (map f (files_of (Node d cs))))"
      using Cons.prems Node by (intro rec) simp_all
    then show ?thesis using Node dir rest by simp
  qed
qed

lemma directory_walk:
  assumes "repos_getContent env owner repo (default_to [] path) ref = Inr (Listing (map entry ts))"
    and "list_all (tree_at env owner repo ref) ts"
    and "\<forall>q\<in>set (concat (map files_of ts)). snd (downloadFile env owner repo q ref) = Inr (f q)"
    and "max_list (map depth ts) < n"
  shows "downloadDirectory n env owner repo path ref
           = Some (ReposGetContent owner repo (default_to [] path) ref
                     # concat (map (visits owner repo ref) ts),
                   Inr (map f (concat (map files_of ts))))"
  using assms
proof (induction n arbitrary: path ts)
  case 0
  then show ?case by simp
next
  case (Suc n)
  have "downloadDirectory_loop n env owner repo ref (map entry ts) []
           = Some (concat (map (visits owner repo ref) ts),
                   Inr ([] @ map f (concat (map files_of ts))))"
  proof (rule loop_walk)
    fix d cs
    assume "tree_at env owner repo ref (Node d cs)" and "depth (Node d cs) \<le> n"
      and "\<forall>q\<in>set (files_of (Node d cs)). snd (downloadFile env owner repo q ref) = Inr (f q)"
    then show "downloadDirectory n env owner repo (Some (dc_path d)) ref
              = Some (visits owner repo ref (Node d cs), Inr (map f (files_of (Node d cs))))"
      using Suc.IH [of "Some (dc_path d)" cs] by (simp add: default_to_def)
  next
    show "list_all (tree_at env owner repo ref) ts" by (rule Suc.prems)
    show "\<forall>t\<in>set ts. depth t \<le> n"
      using Suc.prems(4) max_list_le [of "map depth ts" n] by simp
    show "\<forall>q\<in>set (concat (map files_of ts)). snd (downloadFile env owner repo q ref) = Inr (f q)"
      by (rule Suc.prems)
  qed
  then show ?case
    using getRepositoryContents_listing [OF Suc.prems(1)] by simp
qed

lemma loop_prefix:
  "downloadDirectory_loop n env owner repo ref pre files0 = Some (t1, Inr files)
     \<Longrightarrow> downloadDirectory_loop n env owner repo ref (pre @ rest) files0
         = (case downloadDirectory_loop n env owner repo ref rest files of
              None \<Rightarrow> None
            | Some (t', r) \<Rightarrow> Some (t1 @ t', r))"
proof (induction pre arbitrary: files0 t1)
  case Nil
  then show ?case by (auto split: option.splits)
next
  case (Cons item pre)
  show ?case
  proof (cases "dc_type item = File")
    case True
    obtain t0 r0 where g: "downloadFile env owner repo (dc_path item) ref = (t0, r0)"
      by (cases "downloadFile env owner repo (dc_path item) ref")
    show ?thesis
    proof (cases r0)
      case (Inl e0)
      with g True Cons.prems show ?thesis by simp
    next
      case (Inr fileContent)
      with g True Cons.prems obtain t'
        where l: "downloadDirectory_loop n env owner repo ref pre (files0 @ [fileContent])
                 = Some (t', Inr files)"
          and t1: "t1 = t0 @ t'"
        by (auto split: option.splits)
      from Cons.IH [OF l] g Inr True t1 show ?thesis
        by (auto split: option.splits)
    qed
  next
    case notfile: False
    show ?thesis
    proof (cases "dc_type item = Dir")
      case True
      from notfile True Cons.prems obtain t0 r0
        where d: "downloadDirectory n env owner repo (Some (dc_path item)) ref = Some (t0, r0)"
        by (auto split: option.splits)
      show ?thesis
      proof (cases r0)
        case (Inl e0)
        with d notfile True Cons.prems show ?thesis by simp
      next
        case (Inr dirFiles)
        with d notfile True Cons.prems obtain t'
          where l: "downloadDirectory_loop n env owner repo ref pre (files0 @ dirFiles)
                   = Some (t', Inr files)"
            and t1: "t1 = t0 @ t'"
          by (auto split: option.splits)
        from Cons.IH [OF l] d Inr notfile True t1 show ?thesis
          by (auto split: option.splits)
      qed
    next
      case False
      with notfile Cons.prems Cons.IH show ?thesis by simp
    qed
  qed
qed

lemma downloadDirectory_failure:
  "downloadDirectory n env owner repo path ref = Some (t, Inl e)
     \<Longrightarrow> \<exists>e'. e = handleError (handleError e')"
  "downloadDirectory_loop n env owner repo ref items files = Some (t, Inl e)
     \<Longrightarrow> \<exists>e'. e = handleError e'"
proof (induction n env owner repo path ref and n env owner repo ref items files
    arbitrary: t e and t e rule: downloadDirectory_downloadDirectory_loop.induct)
  case (1 env owner repo path ref)
  then show ?case by simp
next
  case (2 n env owner repo path ref)
  obtain t0 r0 where g: "getRepositoryContents env owner repo path ref = (t0, r0)"
    by (cases "getRepositoryContents env owner repo path ref")
  show ?case
  proof (cases r0)
    case (Inl e0)
    with g "2.prems" have "e = handleError e0" by simp
    moreover from g Inl getRepositoryContents_failure [of env owner repo path ref e0]
    obtain e' where "e0 = handleError e'" by auto
    ultimately show ?thesis by blast
  next
    case (Inr contents)
    with g "2.prems" obtain t' e0
      where l: "downloadDirectory_loop n env owner repo ref contents [] = Some (t', Inl e0)"
        and e: "e = handleError e0"
      by (auto split: option.splits sum.splits)
    from "2.IH" [OF g [symmetric] Inr l] e show ?thesis by blast
  qed
next
  case (3 n env owner repo ref files)
  then show ?case by simp
next
  case (4 n env owner repo ref item items files)
  show ?case
  proof (cases "dc_type item = File")
    case True
    obtain t0 r0 where g: "downloadFile env owner repo (dc_path item) ref = (t0, r0)"
      by (cases "downloadFile env owner repo (dc_path item) ref")
    show ?thesis
    proof (cases r0)
      case (Inl e0)
      with g True "4.prems" have "e = e0" by simp
      with g Inl downloadFile_failure [of env owner repo "dc_path item" ref e0]
      show ?thesis by simp
    next
      case (Inr fileContent)
      with g True "4.prems" obtain t'
        where "downloadDirectory_loop n env owner repo ref items (files @ [fileContent])
                 = Some (t', Inl e)"
        by (auto split: option.splits)
      with "4.IH"(1) [OF True g [symmetric] Inr] show ?thesis by blast
    qed
  next
    case notfile: False
    show ?thesis
    proof (cases "dc_type item = Dir")
      case True
      from notfile True "4.prems" obtain t0 r0
        where d: "downloadDirectory n env owner repo (Some (dc_path item)) ref = Some (t0, r0)"
        by (auto split: option.splits)
      show ?thesis
      proof (cases r0)
        case (Inl e0)
        with d notfile True "4.prems" have "e = e0" by simp
        with "4.IH"(2) [OF notfile True] d Inl show ?thesis by blast
      next
        case (Inr dirFiles)
        with d notfile True "4.prems" obtain t'
          where "downloadDirectory_loop n env owner repo ref items (files @ dirFiles)
                   = Some (t', Inl e)"
          by (auto split: option.splits)
        with "4.IH"(3) [OF notfile True d refl Inr] show ?thesis by blast
      qed
    next
      case False
      with notfile "4.prems" "4.IH"(4) show ?thesis by simp
    qed
  qed
qed

lemma answered_butlast_append:
  "\<forall>req\<in>set t1. remote_error env req = None \<Longrightarrow> \<forall>req\<in>set (butlast t2). remote_error env req = None
     \<Longrightarrow> \<forall>req\<in>set (butlast (t1 @ t2)). remote_error env req = None"
  by (auto simp add: butlast_append dest: in_set_butlastD)

lemma downloadDirectory_trace:
  "downloadDirectory n env owner repo path ref = Some (t, r)
     \<Longrightarrow> (\<forall>req\<in>set (butlast t). remote_error env req = None)
         \<and> (\<forall>v. r = Inr v \<longrightarrow> (\<forall>req\<in>set t. remote_error env req = None))
         \<and> (\<forall>e. r = Inl e \<longrightarrow> t \<noteq> []
               \<and> (\<forall>err. remote_error env (last t) = Some err
                     \<longrightarrow> (\<exists>k. e = (handleError ^^ (k + 2)) err)))"
  "downloadDirectory_loop n env owner repo ref items files = Some (t, r)
     \<Longrightarrow> (\<forall>req\<in>set (butlast t). remote_error env req = None)
         \<and> (\<forall>v. r = Inr v \<longrightarrow> (\<forall>req\<in>set t. remote_error env req = None))
         \<and> (\<forall>e. r = Inl e \<longrightarrow> t \<noteq> []
               \<and> (\<forall>err. remote_error env (last t) = Some err
                     \<longrightarrow> (\<exists>k. e = (handleError ^^ (k + 1)) err)))"
proof (induction n env owner repo path ref and n env owner repo ref items files
    arbitrary: t r and t r rule: downloadDirectory_downloadDirectory_loop.induct)
  case (1 env owner repo path ref)
  then show ?case by simp
next
  case (2 n env owner repo path ref)
  let ?req = "ReposGetContent owner repo (default_to [] path) ref"
  obtain t0 r0 where g: "getRepositoryContents env owner repo path ref = (t0, r0)"
    by (cases "getRepositoryContents env owner repo path ref")
  note t0 = getRepositoryContents_result(1) [OF g]
  show ?case
  proof (cases r0)
    case (Inl e0)
    with g "2.prems" have tr: "t = [?req]" "r = Inl (handleError e0)"
      by (simp_all add: t0)
    have "\<exists>k. handleError e0 = (handleError ^^ (k + 2)) err"
      if "remote_error env ?req = Some err" for err
    proof -
      from getRepositoryContents_result(3) [OF g Inl that]
      have "handleError e0 = (handleError ^^ (0 + 2)) err"
        by (simp add: numeral_2_eq_2)
      then show ?thesis by blast
    qed
    with tr show ?thesis by simp
  next
    case (Inr contents)
    have ok: "remote_error env ?req = None"
      by (rule getRepositoryContents_result(2) [OF g Inr])
    from g Inr "2.prems" obtain t' r'
      where l: "downloadDirectory_loop n env owner repo ref contents [] = Some (t', r')"
        and tr: "t = ?req # t'"
        and r: "r = (case r' of Inl e \<Rightarrow> Inl (handleError e) | Inr v \<Rightarrow> Inr v)"
      by (auto simp add: t0 split: option.splits sum.splits)
    note ih = "2.IH" [OF g [symmetric] Inr l]
    show ?thesis
    proof (cases r')
      case (Inl e0)
      from ih Inl have ne: "t' \<noteq> []"
        and w: "\<And>err. remote_error env (last t') = Some err
                  \<Longrightarrow> \<exists>k. e0 = (handleError ^^ (k + 1)) err"
        by simp_all
      have "\<exists>k. handleError e0 = (handleError ^^ (k + 2)) err"
        if "remote_error env (last t') = Some err" for err
      proof -
        from w [OF that] obtain k where "e0 = (handleError ^^ (k + 1)) err" by blast
        then have "handleError e0 = (handleError ^^ (k + 2)) err" by simp
        then show ?thesis by blast
      qed
      with ih ok ne Inl tr r show ?thesis by simp
    next
      case (Inr v)
      with ih ok tr r show ?thesis by simp
    qed
  qed
next
  case (3 n env owner repo ref files)
  then show ?case by auto
next
  case (4 n env owner repo ref item items files)
  show ?case
  proof (cases "dc_type item = File")
    case True
    let ?req = "ReposGetContent owner repo (dc_path item) ref"
    obtain t0 r0 where g: "downloadFile env owner repo (dc_path item) ref = (t0, r0)"
      by (cases "downloadFile env owner repo (dc_path item) ref")
    note t0 = downloadFile_result(1) [OF g]
    show ?thesis
    proof (cases r0)
      case (Inl e0)
      with g True "4.prems" have tr: "t = [?req]" "r = Inl e0"
        by (simp_all add: t0)
      have "\<exists>k. e0 = (handleError ^^ (k + 1)) err" if "remote_error env ?req = Some err" for err
      proof -
        from downloadFile_result(3) [OF g Inl that] have "e0 = (handleError ^^ (0 + 1)) err"
          by simp
        then show ?thesis by blast
      qed
      with tr show ?thesis by simp
    next
      case (Inr fileContent)
      have ok: "remote_error env ?req = None"
        by (rule downloadFile_result(2) [OF g Inr])
      from g Inr True "4.prems" obtain t'
        where l: "downloadDirectory_loop n env owner repo ref items (files @ [fileContent])
                 = Some (t', r)"
          and tr: "t = ?req # t'"
        by (auto simp add: t0 split: option.splits)
      note ih = "4.IH"(1) [OF True g [symmetric] Inr l]
      show ?thesis
      proof (cases r)
        case (Inl e)
        with ih ok tr show ?thesis by simp
      next
        case (Inr v)
        with ih ok tr show ?thesis by simp
      qed
    qed
  next
    case notfile: False
    show ?thesis
    proof (cases "dc_type item = Dir")
      case True
      from notfile True "4.prems" obtain t0 r0
        where d: "downloadDirectory n env owner repo (Some (dc_path item)) ref = Some (t0, r0)"
        by (auto split: option.splits)
      note ihd = "4.IH"(2) [OF notfile True d]
      show ?thesis
      proof (cases r0)
        case (Inl e0)
        with d notfile True "4.prems" have tr: "t = t0" "r = Inl e0" by simp_all
        have "\<exists>k. e0 = (handleError ^^ (k + 1)) err" if "remote_error env (last t0) = Some err" for err
        proof -
          from ihd Inl that obtain k where "e0 = (handleError ^^ (k + 2)) err" by blast
          then have "e0 = (handleError ^^ (Suc k + 1)) err" by simp
          then show ?thesis by blast
        qed
        with ihd Inl tr show ?thesis by simp
      next
        case (Inr dirFiles)
        with d notfile True "4.prems" obtain t'
          where l: "downloadDirectory_loop n env owner repo ref items (files @ dirFiles)
                   = Some (t', r)"
            and tr: "t = t0 @ t'"
          by (auto split: option.splits)
        note ih = "4.IH"(3) [OF notfile True d refl Inr l]
        from ihd Inr have ok0: "\<forall>req\<in>set t0. remote_error env req = None" by simp
        from ih have ok': "\<forall>req\<in>set (butlast t'). remote_error env req = None" by simp
        note bl = answered_butlast_append [OF ok0 ok']
        show ?thesis
        proof (cases r)
          case (Inl e)
          with ih have "t' \<noteq> []" by simp
          with ih bl Inl tr show ?thesis by simp
        next
          case (Inr v)
          with ih ok0 bl tr show ?thesis by auto
        qed
      qed
    next
      case False
      with notfile "4.prems" "4.IH"(4) show ?thesis by simp
    qed
  qed
qed

lemma downloadDirectory_more_fuel:
  "downloadDirectory n env owner repo path ref = Some x
     \<Longrightarrow> downloadDirectory (Suc n) env owner repo path ref = Some x"
  "downloadDirectory_loop n env owner repo ref items files = Some x
     \<Longrightarrow> downloadDirectory_loop (Suc n) env owner repo ref items files = Some x"
proof (induction n env owner repo path ref and n env owner repo ref items files
    arbitrary: x and x rule: downloadDirectory_downloadDirectory_loop.induct)
  case (1 env owner repo path ref)
  then show ?case by simp
next
  case (2 n env owner repo path ref)
  obtain t0 r0 where g: "getRepositoryContents env owner repo path ref = (t0, r0)"
    by (cases "getRepositoryContents env owner repo path ref")
  show ?case
  proof (cases r0)
    case (Inl e0)
    with g "2.prems" show ?thesis by simp
  next
    case (Inr contents)
    with g "2.prems" obtain y
      where l: "downloadDirectory_loop n env owner repo ref contents [] = Some y"
      by (auto split: option.splits)
    from "2.IH" [OF g [symmetric] Inr l] l g Inr "2.prems" show ?thesis by simp
  qed
next
  case (3 n env owner repo ref files)
  then show ?case by simp
next
  case (4 n env owner repo ref item items files)
  show ?case
  proof (cases "dc_type item = File")
    case True
    obtain t0 r0 where g: "downloadFile env owner repo (dc_path item) ref = (t0, r0)"
      by (cases "downloadFile env owner repo (dc_path item) ref")
    show ?thesis
    proof (cases r0)
      case (Inl e0)
      with g True "4.prems" show ?thesis by simp
    next
      case (Inr fileContent)
      with g True "4.prems" obtain y
        where l: "downloadDirectory_loop n env owner repo ref items (files @ [fileContent])
                 = Some y"
        by (auto split: option.splits)
      from "4.IH"(1) [OF True g [symmetric] Inr l] l g Inr True "4.prems" show ?thesis by simp
    qed
  next
    case notfile: False
    show ?thesis
    proof (cases "dc_type item = Dir")
      case True
      from notfile True "4.prems" obtain t0 r0
        where d: "downloadDirectory n env owner repo (Some (dc_path item)) ref = Some (t0, r0)"
        by (auto split: option.splits)
      note d' = "4.IH"(2) [OF notfile True d]
      show ?thesis
      proof (cases r0)
        case (Inl e0)
        with d d' notfile True "4.prems" show ?thesis
          by (auto simp del: downloadDirectory.simps(2))
      next
        case (Inr dirFiles)
        with d notfile True "4.prems" obtain y
          where l: "downloadDirectory_loop n env owner repo ref items (files @ dirFiles) = Some y"
          by (auto split: option.splits)
        from "4.IH"(3) [OF notfile True d refl Inr l] l d d' Inr notfile True "4.prems"
        show ?thesis by (auto simp del: downloadDirectory.simps(2))
      qed
    next
      case False
      with notfile "4.prems" "4.IH"(4) show ?thesis by simp
    qed
  qed
qed

lemma downloadDirectory_fuel:
  assumes "downloadDirectory n env owner repo path ref = Some x" and "n \<le> m"
  shows "downloadDirectory m env owner repo path ref = Some x"
proof -
  have "downloadDirectory (n + k) env owner repo path ref = Some x" for k
    by (induction k) (simp_all add: assms(1) downloadDirectory_more_fuel(1) del: downloadDirectory.simps)
  from this [of "m - n"] assms(2) show ?thesis by simp
qed

subsection \<open>The example remote\<close>

lemma example_env_getContent: "repos_getContent example_env = example_getContent"
  by (simp add: example_env_def)

lemma example_env_base64: "base64_utf8 example_env = example_base64"
  by (simp add: example_env_def)

lemma example_env_downloadArchive:
  "repos_downloadArchive example_env owner repo format ref
     = Inr (''https://codeload.example/'' @ repo @ ''/'' @ ref)"
  by (simp add: example_env_def)

lemma example_env_fetch:
  "fetch example_env url
     = Inr \<lparr>fr_ok = (url = ''https://codeload.example/r/HEAD''),
            fr_statusText =
              (if url = ''https://codeload.example/r/HEAD'' then ''OK'' else ''Forbidden''),
            fr_arrayBuffer = Inr [0x50, 0x4B]\<rparr>"
  by (simp add: example_env_def)

lemma example_base64_hi: "example_base64 ''aGk='' = ''hi''"
  by code_simp

lemma example_base64_a: "example_base64 ''YQ=='' = ''a''"
  by code_simp

lemma example_listing:
  "repos_getContent example_env ''o'' ''r'' (default_to [] None) None
     = Inr (Listing (map entry example_tree))"
  by (simp add: example_env_def example_getContent_def example_tree_def default_to_def)

lemma example_tree_at: "list_all (tree_at example_env ''o'' ''r'' None) example_tree"
  by (simp add: example_env_def example_getContent_def example_tree_def example_entry_def)

lemma example_files_of:
  "concat (map files_of example_tree) = [''README.md'', ''src/a.ts'', ''src/lib/b.ts'']"
  by (simp add: example_tree_def example_entry_def)

lemma example_fetches:
  "\<forall>q\<in>set (concat (map files_of example_tree)).
     snd (downloadFile example_env ''o'' ''r'' q None) = Inr (example_files q)"
  by (simp add: example_files_of downloadFile_def getFileContent_def try_catch_def
      example_env_def example_getContent_def example_object_def example_files_def
      example_base64_hi example_base64_a)

lemma example_depth: "max_list (map depth example_tree) < 3"
  by (simp add: example_tree_def)

lemma example_src:
  "repos_getContent example_env ''o'' ''r'' ''src'' None
     = Inr (Listing [example_entry ''a.ts'' ''src/a.ts'' File, example_entry ''lib'' ''src/lib'' Dir])"
  by (simp add: example_env_getContent example_getContent_def)

lemma example_readme:
  "repos_getContent example_env ''o'' ''r'' ''README.md'' None
     = Inr (Single (example_object ''README.md'' ''README.md'' ''base64'' ''aGk=''))"
  by (simp add: example_env_getContent example_getContent_def)

lemma example_b_ts:
  "repos_getContent example_env ''o'' ''r'' ''src/lib/b.ts'' None
     = Inr (Single (example_object ''b.ts'' ''src/lib/b.ts'' ''none'' ''plain''))"
  by (simp add: example_env_getContent example_getContent_def)

lemma example_get_readme:
  "getFileContent example_env ''o'' ''r'' ''README.md'' None
     = ([ReposGetContent ''o'' ''r'' ''README.md'' None], Inr (example_files ''README.md''))"
  by (simp add: getFileContent_def example_readme try_catch_simps example_object_def
      example_files_def example_env_base64 example_base64_hi)

lemma example_get_b_ts:
  "getFileContent example_env ''o'' ''r'' ''src/lib/b.ts'' None
     = ([ReposGetContent ''o'' ''r'' ''src/lib/b.ts'' None], Inr (example_files ''src/lib/b.ts''))"
  by (simp add: getFileContent_def example_b_ts try_catch_simps example_object_def
      example_files_def)

lemma example_nowhere:
  "remote_error example_env (ReposGetContent ''o'' ''r'' ''nowhere'' None) = Some example_404"
  by (simp add: example_env_def example_getContent_def thrown_def)


lemma example_broken_listing:
  "getRepositoryContents example_env ''o'' ''r'' None (Some ''broken'')
     = ([ReposGetContent ''o'' ''r'' [] (Some ''broken'')],
        Inr ([example_entry ''README.md'' ''README.md'' File]
              @ example_entry ''src'' ''src'' Dir
                # [example_entry ''latest'' ''latest'' Symlink,
                   example_entry ''vendor'' ''vendor'' Submodule]))"
  by code_simp

lemma example_broken_pre:
  "downloadDirectory_loop 2 example_env ''o'' ''r'' (Some ''broken'')
       [example_entry ''README.md'' ''README.md'' File] []
     = Some ([ReposGetContent ''o'' ''r'' ''README.md'' (Some ''broken'')],
             Inr [example_files ''README.md''])"
  by code_simp

lemma example_broken_src:
  "downloadDirectory 2 example_env ''o'' ''r'' (Some ''src'') (Some ''broken'')
     = Some ([ReposGetContent ''o'' ''r'' ''src'' (Some ''broken''),
              ReposGetContent ''o'' ''r'' ''src/a.ts'' (Some ''broken'')],
             Inl (Error ''GitHub API error: GitHub API error: Server Error''))"
  by code_simp

lemma example_broken_request:
  "remote_error example_env (ReposGetContent ''o'' ''r'' ''src/a.ts'' (Some ''broken''))
     = Some example_500"
  by (simp add: example_env_getContent example_getContent_def thrown_def)

lemma example_500_wrapped:
  "(handleError ^^ 3) example_500
     = Error ''GitHub API error: GitHub API error: GitHub API error: Server Error''"
  by (simp add: numeral_3_eq_3 handleError_def example_500_def Error_def)

section \<open>Claims\<close>

subsection \<open>Recursive download of a directory\<close>

text \<open>
  Claim C1. When the remote serves a (finite) directory tree below the path and every file
  of it can be fetched, \<open>downloadDirectory\<close>, given at least as many nested calls as the tree
  has levels, returns the files of the tree depth first and in listing order: one
  \<open>FileContent\<close> per entry of kind \<open>file\<close>, fetched through \<open>downloadFile\<close>, the result of the
  nested walk for every entry of kind \<open>dir\<close>, and nothing for \<open>symlink\<close> and \<open>submodule\<close>
  entries. It sends one request per directory and per file, in that order. The result has
  exactly as many entries as the tree has files, and no duplicates when the paths of the
  files are distinct and each fetched file carries the path it was asked for.
\<close>

theorem downloadDirectory_walks_tree:
  assumes "repos_getContent env owner repo (default_to [] path) ref = Inr (Listing (map entry ts))"
    and "list_all (tree_at env owner repo ref) ts"
    and "\<forall>q\<in>set (concat (map files_of ts)). snd (downloadFile env owner repo q ref) = Inr (f q)"
    and "max_list (map depth ts) < fuel"
  shows "downloadDirectory fuel env owner repo path ref
           = Some (ReposGetContent owner repo (default_to [] path) ref
                     # concat (map (visits owner repo ref) ts),
                   Inr (map f (concat (map files_of ts))))
         \<and> length (map f (concat (map files_of ts))) = sum_list (map file_count ts)
         \<and> (distinct (concat (map files_of ts))
              \<and> (\<forall>q\<in>set (concat (map files_of ts)). fc_path (f q) = q)
            \<longrightarrow> distinct (map f (concat (map files_of ts))))"
proof (intro conjI impI)
  show "downloadDirectory fuel env owner repo path ref
           = Some (ReposGetContent owner repo (default_to [] path) ref
                     # concat (map (visits owner repo ref) ts),
                   Inr (map f (concat (map files_of ts))))"
    using assms by (rule directory_walk)
  show "length (map f (concat (map files_of ts))) = sum_list (map file_count ts)"
    by (simp add: length_concat comp_def length_files_of)
  assume h: "distinct (concat (map files_of ts))
              \<and> (\<forall>q\<in>set (concat (map files_of ts)). fc_path (f q) = q)"
  then have "inj_on f (set (concat (map files_of ts)))"
    by (intro inj_onI) metis
  with h show "distinct (map f (concat (map files_of ts)))"
    by (simp add: distinct_map)
qed

theorem downloadDirectory_walks_tree_witness:
  "repos_getContent example_env ''o'' ''r'' (default_to [] None) None
     = Inr (Listing (map entry example_tree))
   \<and> list_all (tree_at example_env ''o'' ''r'' None) example_tree
   \<and> concat (map files_of example_tree) = [''README.md'', ''src/a.ts'', ''src/lib/b.ts'']
   \<and> snd (downloadFile example_env ''o'' ''r'' ''README.md'' None)
       = Inr (example_files ''README.md'')
   \<and> snd (downloadFile example_env ''o'' ''r'' ''src/a.ts'' None)
       = Inr (example_files ''src/a.ts'')
   \<and> snd (downloadFile example_env ''o'' ''r'' ''src/lib/b.ts'' None)
       = Inr (example_files ''src/lib/b.ts'')
   \<and> max_list (map depth example_tree) < 3
   \<and> downloadDirectory 3 example_env ''o'' ''r'' None None
       = Some ([ReposGetContent ''o'' ''r'' [] None,
                ReposGetContent ''o'' ''r'' ''README.md'' None,
                ReposGetContent ''o'' ''r'' ''src'' None,
                ReposGetContent ''o'' ''r'' ''src/a.ts'' None,
                ReposGetContent ''o'' ''r'' ''src/lib'' None,
                ReposGetContent ''o'' ''r'' ''src/lib/b.ts'' None],
               Inr [example_files ''README.md'', example_files ''src/a.ts'',
                    example_files ''src/lib/b.ts''])
   \<and> sum_list (map file_count example_tree) = 3
   \<and> distinct [example_files ''README.md'', example_files ''src/a.ts'',
                example_files ''src/lib/b.ts'']"
proof -
  note w = downloadDirectory_walks_tree
             [OF example_listing example_tree_at example_fetches example_depth]
  have paths: "distinct (concat (map files_of example_tree))
     \<and> (\<forall>q\<in>set (concat (map files_of example_tree)). fc_path (example_files q) = q)"
    by (simp add: example_files_of example_files_def)
  have visits: "concat (map (visits ''o'' ''r'' None) example_tree)
      = [ReposGetContent ''o'' ''r'' ''README.md'' None,
                ReposGetContent ''o'' ''r'' ''src'' None,
                ReposGetContent ''o'' ''r'' ''src/a.ts'' None,
                ReposGetContent ''o'' ''r'' ''src/lib'' None,
                ReposGetContent ''o'' ''r'' ''src/lib/b.ts'' None]"
    by (simp add: example_tree_def example_entry_def)
  have count: "sum_list (map file_count example_tree) = 3"
    by (simp add: example_tree_def example_entry_def)
  from w paths have "distinct (map example_files (concat (map files_of example_tree)))"
    by blast
  with w show ?thesis
    using example_listing example_tree_at example_fetches example_depth visits count
    by (simp add: example_files_of default_to_def)
qed

text \<open>
  Claim C2. A failure inside \<open>downloadDirectory\<close> ends the call: when the listing of the
  path fails, or when, after any entries that went well, the fetch of a file or the nested
  call for a directory fails, the call fails with that failure passed once more through
  \<open>handleError\<close>, which puts the uncategorized prefix in front of its message. What was
  collected before is not returned, the entries after the failing one are not visited, and
  the requests of the failing step are the last ones sent. Whenever the remote answers a
  request of the walk with an error, at any depth, the call fails with that error
  normalized and then wrapped once per level, the failing request is the last one and was
  sent once, and every request before it was answered. More nested calls allowed do not
  change an outcome.
\<close>

theorem downloadDirectory_aborts:
  "(getRepositoryContents env owner repo path ref = (t0, Inl e) \<longrightarrow>
      downloadDirectory (Suc n) env owner repo path ref = Some (t0, Inl (handleError e))
      \<and> handleError e = Error (''GitHub API error: '' @ message e))
   \<and> (getRepositoryContents env owner repo path ref = (t0, Inr (pre @ item # post))
       \<and> downloadDirectory_loop n env owner repo ref pre [] = Some (t1, Inr files)
       \<and> (dc_type item = File \<and> downloadFile env owner repo (dc_path item) ref = (t2, Inl e)
          \<or> dc_type item = Dir
            \<and> downloadDirectory n env owner repo (Some (dc_path item)) ref = Some (t2, Inl e))
      \<longrightarrow> downloadDirectory (Suc n) env owner repo path ref
            = Some (t0 @ t1 @ t2, Inl (handleError e))
         \<and> handleError e = Error (''GitHub API error: '' @ message e))
   \<and> (downloadDirectory fuel env owner repo path ref = Some (t, r) \<and> req \<in> set t
       \<and> remote_error env req = Some err
      \<longrightarrow> (\<exists>k. r = Inl ((handleError ^^ (k + 2)) err))
         \<and> t = butlast t @ [req] \<and> req \<notin> set (butlast t)
         \<and> (\<forall>q\<in>set (butlast t). remote_error env q = None))
   \<and> (downloadDirectory fuel env owner repo path ref = Some (t, r) \<and> fuel \<le> fuel'
      \<longrightarrow> downloadDirectory fuel' env owner repo path ref = Some (t, r))"
proof (intro conjI impI)
  assume g: "getRepositoryContents env owner repo path ref = (t0, Inl e)"
  then show "downloadDirectory (Suc n) env owner repo path ref = Some (t0, Inl (handleError e))"
    by simp
  from g getRepositoryContents_failure [of env owner repo path ref e]
  show "handleError e = Error (''GitHub API error: '' @ message e)"
    by (intro normalized_again) simp
next
  assume h: "getRepositoryContents env owner repo path ref = (t0, Inr (pre @ item # post))
       \<and> downloadDirectory_loop n env owner repo ref pre [] = Some (t1, Inr files)
       \<and> (dc_type item = File \<and> downloadFile env owner repo (dc_path item) ref = (t2, Inl e)
          \<or> dc_type item = Dir
            \<and> downloadDirectory n env owner repo (Some (dc_path item)) ref = Some (t2, Inl e))"
  then have step: "downloadDirectory_loop n env owner repo ref (item # post) files
                     = Some (t2, Inl e)"
    by auto
  from h have "downloadDirectory_loop n env owner repo ref (pre @ item # post) []
                 = Some (t1 @ t2, Inl e)"
    using loop_prefix [of n env owner repo ref pre "[]" t1 files "item # post"]
    by (simp only: step) simp
  with h show "downloadDirectory (Suc n) env owner repo path ref
            = Some (t0 @ t1 @ t2, Inl (handleError e))"
    by simp
  from h have "\<exists>e'. e = handleError e'"
    using downloadFile_failure [of env owner repo "dc_path item" ref e]
      downloadDirectory_failure(1) [of n env owner repo "Some (dc_path item)" ref t2 e]
    by auto
  then show "handleError e = Error (''GitHub API error: '' @ message e)"
    by (rule normalized_again)
next
  assume h: "downloadDirectory fuel env owner repo path ref = Some (t, r) \<and> req \<in> set t
       \<and> remote_error env req = Some err"
  note inv = downloadDirectory_trace(1) [of fuel env owner repo path ref t r]
  from h inv have front: "\<forall>q\<in>set (butlast t). remote_error env q = None"
    by blast
  from h have ne: "t \<noteq> []" by auto
  from h front have notin: "req \<notin> set (butlast t)" by auto
  with h ne have last: "last t = req"
    by (metis append_butlast_last_id in_set_conv_decomp_first set_ConsD rotate1.simps(2)
        set_rotate1)
  from h inv obtain e where r: "r = Inl e"
    by (cases r) auto
  with h inv last obtain k where "e = (handleError ^^ (k + 2)) err"
    by blast
  with r show "\<exists>k. r = Inl ((handleError ^^ (k + 2)) err)" by blast
  from ne last show "t = butlast t @ [req]" by (metis append_butlast_last_id)
  show "req \<notin> set (butlast t)" by (rule notin)
  show "\<forall>q\<in>set (butlast t). remote_error env q = None" by (rule front)
next
  assume "downloadDirectory fuel env owner repo path ref = Some (t, r) \<and> fuel \<le> fuel'"
  then show "downloadDirectory fuel' env owner repo path ref = Some (t, r)"
    using downloadDirectory_fuel by blast
qed

theorem downloadDirectory_aborts_witness:
  "getRepositoryContents example_env ''o'' ''r'' None (Some ''broken'')
     = ([ReposGetContent ''o'' ''r'' [] (Some ''broken'')],
        Inr ([example_entry ''README.md'' ''README.md'' File]
              @ example_entry ''src'' ''src'' Dir
                # [example_entry ''latest'' ''latest'' Symlink,
                   example_entry ''vendor'' ''vendor'' Submodule]))
   \<and> downloadDirectory_loop 2 example_env ''o'' ''r'' (Some ''broken'')
         [example_entry ''README.md'' ''README.md'' File] []
       = Some ([ReposGetContent ''o'' ''r'' ''README.md'' (Some ''broken'')],
               Inr [example_files ''README.md''])
   \<and> dc_type (example_entry ''src'' ''src'' Dir) = Dir
   \<and> downloadDirectory 2 example_env ''o'' ''r''
         (Some (dc_path (example_entry ''src'' ''src'' Dir))) (Some ''broken'')
       = Some ([ReposGetContent ''o'' ''r'' ''src'' (Some ''broken''),
                ReposGetContent ''o'' ''r'' ''src/a.ts'' (Some ''broken'')],
               Inl (Error ''GitHub API error: GitHub API error: Server Error''))
   \<and> downloadDirectory 3 example_env ''o'' ''r'' None (Some ''broken'')
       = Some ([ReposGetContent ''o'' ''r'' [] (Some ''broken''),
                ReposGetContent ''o'' ''r'' ''README.md'' (Some ''broken''),
                ReposGetContent ''o'' ''r'' ''src'' (Some ''broken''),
                ReposGetContent ''o'' ''r'' ''src/a.ts'' (Some ''broken'')],
               Inl (Error ''GitHub API error: GitHub API error: GitHub API error: Server Error''))
   \<and> remote_error example_env (ReposGetContent ''o'' ''r'' ''src/a.ts'' (Some ''broken''))
       = Some example_500
   \<and> (handleError ^^ 3) example_500
       = Error ''GitHub API error: GitHub API error: GitHub API error: Server Error''
   \<and> downloadDirectory 7 example_env ''o'' ''r'' None (Some ''broken'')
       = Some ([ReposGetContent ''o'' ''r'' [] (Some ''broken''),
                ReposGetContent ''o'' ''r'' ''README.md'' (Some ''broken''),
                ReposGetContent ''o'' ''r'' ''src'' (Some ''broken''),
                ReposGetContent ''o'' ''r'' ''src/a.ts'' (Some ''broken'')],
               Inl (Error ''GitHub API error: GitHub API error: GitHub API error: Server Error''))"
proof -
  have dir: "dc_type (example_entry ''src'' ''src'' Dir) = Dir"
    and path: "dc_path (example_entry ''src'' ''src'' Dir) = ''src''"
    by (simp_all add: example_entry_def)
  have three: "Suc 2 = 3"
    by simp
  have wrap: "handleError (Error ''GitHub API error: GitHub API error: Server Error'')
                = Error ''GitHub API error: GitHub API error: GitHub API error: Server Error''"
    by (simp add: handleError_Error)
  note a = downloadDirectory_aborts
      [where env = example_env and owner = "''o''" and repo = "''r''" and path = None
         and ref = "Some ''broken''" and n = 2
         and ?t0.0 = "[ReposGetContent ''o'' ''r'' [] (Some ''broken'')]"
         and pre = "[example_entry ''README.md'' ''README.md'' File]"
         and item = "example_entry ''src'' ''src'' Dir"
         and post = "[example_entry ''latest'' ''latest'' Symlink,
                      example_entry ''vendor'' ''vendor'' Submodule]"
         and ?t1.0 = "[ReposGetContent ''o'' ''r'' ''README.md'' (Some ''broken'')]"
         and files = "[example_files ''README.md'']"
         and ?t2.0 = "[ReposGetContent ''o'' ''r'' ''src'' (Some ''broken''),
                       ReposGetContent ''o'' ''r'' ''src/a.ts'' (Some ''broken'')]"
         and e = "Error ''GitHub API error: GitHub API error: Server Error''"
         and fuel = 3 and fuel' = 7
         and t = "[ReposGetContent ''o'' ''r'' [] (Some ''broken''),
                ReposGetContent ''o'' ''r'' ''README.md'' (Some ''broken''),
                ReposGetContent ''o'' ''r'' ''src'' (Some ''broken''),
                ReposGetContent ''o'' ''r'' ''src/a.ts'' (Some ''broken'')]"
         and r = "Inl (Error ''GitHub API error: GitHub API error: GitHub API error: Server Error'')"
         and req = "ReposGetContent ''o'' ''r'' ''src/a.ts'' (Some ''broken'')"
         and err = example_500]
  have src: "downloadDirectory 2 example_env ''o'' ''r''
         (Some (dc_path (example_entry ''src'' ''src'' Dir))) (Some ''broken'')
       = Some ([ReposGetContent ''o'' ''r'' ''src'' (Some ''broken''),
                ReposGetContent ''o'' ''r'' ''src/a.ts'' (Some ''broken'')],
               Inl (Error ''GitHub API error: GitHub API error: Server Error''))"
    unfolding path by (rule example_broken_src)
  from a example_broken_listing example_broken_pre dir src
  have "downloadDirectory (Suc 2) example_env ''o'' ''r'' None (Some ''broken'')
       = Some ([ReposGetContent ''o'' ''r'' [] (Some ''broken'')]
                @ [ReposGetContent ''o'' ''r'' ''README.md'' (Some ''broken'')]
                @ [ReposGetContent ''o'' ''r'' ''src'' (Some ''broken''),
                   ReposGetContent ''o'' ''r'' ''src/a.ts'' (Some ''broken'')],
               Inl (handleError (Error ''GitHub API error: GitHub API error: Server Error'')))"
    by blast
  then have run: "downloadDirectory 3 example_env ''o'' ''r'' None (Some ''broken'')
       = Some ([ReposGetContent ''o'' ''r'' [] (Some ''broken''),
                ReposGetContent ''o'' ''r'' ''README.md'' (Some ''broken''),
                ReposGetContent ''o'' ''r'' ''src'' (Some ''broken''),
                ReposGetContent ''o'' ''r'' ''src/a.ts'' (Some ''broken'')],
               Inl (Error ''GitHub API error: GitHub API error: GitHub API error: Server Error''))"
    by (simp only: wrap append.simps three)
  have "(3::nat) \<le> 7" by simp
  with a run
  have more: "downloadDirectory 7 example_env ''o'' ''r'' None (Some ''broken'')
       = Some ([ReposGetContent ''o'' ''r'' [] (Some ''broken''),
                ReposGetContent ''o'' ''r'' ''README.md'' (Some ''broken''),
                ReposGetContent ''o'' ''r'' ''src'' (Some ''broken''),
                ReposGetContent ''o'' ''r'' ''src/a.ts'' (Some ''broken'')],
               Inl (Error ''GitHub API error: GitHub API error: GitHub API error: Server Error''))"
    by blast
  show ?thesis
    by (intro conjI example_broken_listing example_broken_pre dir src run
        example_broken_request example_500_wrapped more)
qed

subsection \<open>Error normalization\<close>

text \<open>
  Claim C3, as the code has it. \<open>handleError\<close> maps an error by its status alone: 404, 403
  and 422 to their own message carrying the remote's message text (a generic phrase when
  that text is missing or empty), 401 to a fixed message, and everything else, a failure
  without a status included, to the uncategorized message carrying the error's own message.
  An operation surfaces exactly this mapping for the error that its own call of the
  client throws; so does \<open>downloadRepositoryArchive\<close> for an error that its \<open>fetch\<close> throws
  once the location is resolved. The claim speaks of every operation and every remote
  failure; left out here are a failure inside an operation that another operation calls,
  and an answer of that \<open>fetch\<close> with a status that is not a success, which is not thrown
  by the request and is not mapped by its status.
\<close>

theorem handleError_by_status:
  "(status e = Some 404 \<longrightarrow>
      handleError e
        = Error (''Resource not found: '' @ or_string (response_data_message e) ''Not found''))
   \<and> (status e = Some 401 \<longrightarrow>
      handleError e = Error ''Authentication failed. Check your GitHub token.'')
   \<and> (status e = Some 403 \<longrightarrow>
      handleError e
        = Error (''Access forbidden: '' @ or_string (response_data_message e) ''Forbidden''))
   \<and> (status e = Some 422 \<longrightarrow>
      handleError e
        = Error (''Invalid request: ''
                  @ or_string (response_data_message e) ''Unprocessable entity''))
   \<and> (status e \<notin> {Some 404, Some 401, Some 403, Some 422} \<longrightarrow>
      handleError e = Error (''GitHub API error: '' @ message e))
   \<and> (response_data_message e = Some m \<and> m \<noteq> [] \<longrightarrow> or_string (response_data_message e) d = m)
   \<and> (response_data_message e = None \<or> response_data_message e = Some []
        \<longrightarrow> or_string (response_data_message e) d = d)
   \<and> (fst (getRepository env owner repo) = [req] \<and> remote_error env req = Some e
        \<longrightarrow> snd (getRepository env owner repo) = Inl (handleError e))
   \<and> (fst (getFileContent env owner repo path ref) = [req] \<and> remote_error env req = Some e
        \<longrightarrow> snd (getFileContent env owner repo path ref) = Inl (handleError e))
   \<and> (fst (downloadFile env owner repo path ref) = [req] \<and> remote_error env req = Some e
        \<longrightarrow> snd (downloadFile env owner repo path ref) = Inl (handleError e))
   \<and> (fst (getRepositoryContents env owner repo dir ref) = [req] \<and> remote_error env req = Some e
        \<longrightarrow> snd (getRepositoryContents env owner repo dir ref) = Inl (handleError e))
   \<and> (fst (searchRepositories env query options) = [req] \<and> remote_error env req = Some e
        \<longrightarrow> snd (searchRepositories env query options) = Inl (handleError e))
   \<and> (fst (searchCode env query scope_owner scope_repo) = [req] \<and> remote_error env req = Some e
        \<longrightarrow> snd (searchCode env query scope_owner scope_repo) = Inl (handleError e))
   \<and> (fst (getRepositoryArchive env owner repo fmt ref) = [req] \<and> remote_error env req = Some e
        \<longrightarrow> snd (getRepositoryArchive env owner repo fmt ref) = Inl (handleError e))
   \<and> (fst (getFileHistory env owner repo path history) = [req] \<and> remote_error env req = Some e
        \<longrightarrow> snd (getFileHistory env owner repo path history) = Inl (handleError e))
   \<and> (fst (getCommitDiff env owner repo commit) = [req] \<and> remote_error env req = Some e
        \<longrightarrow> snd (getCommitDiff env owner repo commit) = Inl (handleError e))
   \<and> (fst (compareCommits env owner repo base head) = [req] \<and> remote_error env req = Some e
        \<longrightarrow> snd (compareCommits env owner repo base head) = Inl (handleError e))
   \<and> (fst (downloadRepositoryArchive env owner repo fmt ref) = [req', req]
        \<and> remote_error env req' = None \<and> remote_error env req = Some e
        \<longrightarrow> snd (downloadRepositoryArchive env owner repo fmt ref) = Inl (handleError e))"
proof (intro conjI impI)
  show "status e = Some 404 \<Longrightarrow> handleError e
        = Error (''Resource not found: '' @ or_string (response_data_message e) ''Not found'')"
    by (simp add: handleError_def)
  show "status e = Some 401 \<Longrightarrow>
      handleError e = Error ''Authentication failed. Check your GitHub token.''"
    by (simp add: handleError_def)
  show "status e = Some 403 \<Longrightarrow> handleError e
        = Error (''Access forbidden: '' @ or_string (response_data_message e) ''Forbidden'')"
    by (simp add: handleError_def)
  show "status e = Some 422 \<Longrightarrow> handleError e
        = Error (''Invalid request: ''
                  @ or_string (response_data_message e) ''Unprocessable entity'')"
    by (simp add: handleError_def)
  show "status e \<notin> {Some 404, Some 401, Some 403, Some 422} \<Longrightarrow>
      handleError e = Error (''GitHub API error: '' @ message e)"
    by (simp add: handleError_def)
  show "response_data_message e = Some m \<and> m \<noteq> [] \<Longrightarrow> or_string (response_data_message e) d = m"
    by (simp add: or_string_def)
  show "response_data_message e = None \<or> response_data_message e = Some []
        \<Longrightarrow> or_string (response_data_message e) d = d"
    by (auto simp add: or_string_def)
  show "fst (getRepository env owner repo) = [req] \<and> remote_error env req = Some e
        \<Longrightarrow> snd (getRepository env owner repo) = Inl (handleError e)"
    by (auto simp add: getRepository_def thrown_Some try_catch_simps)
  show "fst (getFileContent env owner repo path ref) = [req] \<and> remote_error env req = Some e
        \<Longrightarrow> snd (getFileContent env owner repo path ref) = Inl (handleError e)"
    by (auto simp add: getFileContent_def thrown_Some try_catch_simps)
  show "fst (downloadFile env owner repo path ref) = [req] \<and> remote_error env req = Some e
        \<Longrightarrow> snd (downloadFile env owner repo path ref) = Inl (handleError e)"
    by (auto simp add: downloadFile_def getFileContent_def thrown_Some try_catch_simps)
  show "fst (getRepositoryContents env owner repo dir ref) = [req] \<and> remote_error env req = Some e
        \<Longrightarrow> snd (getRepositoryContents env owner repo dir ref) = Inl (handleError e)"
    by (auto simp add: getRepositoryContents_def Let_def thrown_Some try_catch_simps)
  show "fst (searchRepositories env query options) = [req] \<and> remote_error env req = Some e
        \<Longrightarrow> snd (searchRepositories env query options) = Inl (handleError e)"
    by (auto simp add: searchRepositories_def Let_def thrown_Some try_catch_simps)
  show "fst (searchCode env query scope_owner scope_repo) = [req] \<and> remote_error env req = Some e
        \<Longrightarrow> snd (searchCode env query scope_owner scope_repo) = Inl (handleError e)"
    by (auto simp add: searchCode_def Let_def thrown_Some try_catch_simps)
  show "fst (getRepositoryArchive env owner repo fmt ref) = [req] \<and> remote_error env req = Some e
        \<Longrightarrow> snd (getRepositoryArchive env owner repo fmt ref) = Inl (handleError e)"
    by (auto simp add: getRepositoryArchive_def Let_def thrown_Some try_catch_simps)
  show "fst (getFileHistory env owner repo path history) = [req] \<and> remote_error env req = Some e
        \<Longrightarrow> snd (getFileHistory env owner repo path history) = Inl (handleError e)"
    by (auto simp add: getFileHistory_def Let_def thrown_Some try_catch_simps)
  show "fst (getCommitDiff env owner repo commit) = [req] \<and> remote_error env req = Some e
        \<Longrightarrow> snd (getCommitDiff env owner repo commit) = Inl (handleError e)"
    by (auto simp add: getCommitDiff_def thrown_Some try_catch_simps)
  show "fst (compareCommits env owner repo base head) = [req] \<and> remote_error env req = Some e
        \<Longrightarrow> snd (compareCommits env owner repo base head) = Inl (handleError e)"
    by (auto simp add: compareCommits_def thrown_Some try_catch_simps)
  show "fst (downloadRepositoryArchive env owner repo fmt ref) = [req', req]
        \<and> remote_error env req' = None \<and> remote_error env req = Some e
        \<Longrightarrow> snd (downloadRepositoryArchive env owner repo fmt ref) = Inl (handleError e)"
    by (auto simp add: downloadRepositoryArchive_def getRepositoryArchive_def Let_def
        thrown_Some thrown_None try_catch_simps split: sum.splits)
qed

theorem handleError_by_status_witness:
  "status example_404 = Some 404
   \<and> response_data_message example_404 = Some ''Not Found''
   \<and> fst (getFileContent example_env ''o'' ''r'' ''nowhere'' None)
       = [ReposGetContent ''o'' ''r'' ''nowhere'' None]
   \<and> remote_error example_env (ReposGetContent ''o'' ''r'' ''nowhere'' None) = Some example_404
   \<and> snd (getFileContent example_env ''o'' ''r'' ''nowhere'' None)
       = Inl (Error ''Resource not found: Not Found'')
   \<and> status example_500 = Some 500
   \<and> fst (getFileContent example_env ''o'' ''r'' ''src/a.ts'' (Some ''broken''))
       = [ReposGetContent ''o'' ''r'' ''src/a.ts'' (Some ''broken'')]
   \<and> remote_error example_env (ReposGetContent ''o'' ''r'' ''src/a.ts'' (Some ''broken''))
       = Some example_500
   \<and> snd (getFileContent example_env ''o'' ''r'' ''src/a.ts'' (Some ''broken''))
       = Inl (Error ''GitHub API error: Server Error'')
   \<and> handleError \<lparr>status = Some 401, response = None, message = ''Bad credentials''\<rparr>
       = Error ''Authentication failed. Check your GitHub token.''
   \<and> handleError \<lparr>status = Some 403, response = None, message = ''rate limit''\<rparr>
       = Error ''Access forbidden: Forbidden''
   \<and> handleError \<lparr>status = Some 422, response = Some \<lparr>data = Some \<lparr>data_message = Some [],
         data_documentation_url = None\<rparr>\<rparr>, message = ''Validation Failed''\<rparr>
       = Error ''Invalid request: Unprocessable entity''"
proof -
  have s404: "status example_404 = Some 404"
    and m404: "response_data_message example_404 = Some ''Not Found''"
    by (simp_all add: example_404_def response_data_message_def)
  have s500: "status example_500 = Some 500"
    and o500: "status example_500 \<notin> {Some 404, Some 401, Some 403, Some 422}"
    and m500: "message example_500 = ''Server Error''"
    by (simp_all add: example_500_def)
  have t1: "fst (getFileContent example_env ''o'' ''r'' ''nowhere'' None)
       = [ReposGetContent ''o'' ''r'' ''nowhere'' None]"
    by (simp add: getFileContent_def)
  have t2: "fst (getFileContent example_env ''o'' ''r'' ''src/a.ts'' (Some ''broken''))
       = [ReposGetContent ''o'' ''r'' ''src/a.ts'' (Some ''broken'')]"
    by (simp add: getFileContent_def)
  have r2: "remote_error example_env (ReposGetContent ''o'' ''r'' ''src/a.ts'' (Some ''broken''))
       = Some example_500"
    by (simp add: example_env_def example_getContent_def thrown_def)
  note a = handleError_by_status
      [where e = example_404 and m = "''Not Found''" and d = "''Not found''"
         and env = example_env and owner = "''o''" and repo = "''r''" and path = "''nowhere''"
         and ref = None and req = "ReposGetContent ''o'' ''r'' ''nowhere'' None"]
  note b = handleError_by_status
      [where e = example_500 and env = example_env and owner = "''o''" and repo = "''r''"
         and path = "''src/a.ts''" and ref = "Some ''broken''"
         and req = "ReposGetContent ''o'' ''r'' ''src/a.ts'' (Some ''broken'')"]
  note c = handleError_by_status
      [where e = "\<lparr>status = Some 401, response = None, message = ''Bad credentials''\<rparr>"]
  note d = handleError_by_status
      [where e = "\<lparr>status = Some 403, response = None, message = ''rate limit''\<rparr>"
         and d = "''Forbidden''"]
  note e = handleError_by_status
      [where e = "\<lparr>status = Some 422, response = Some \<lparr>data = Some \<lparr>data_message = Some [],
         data_documentation_url = None\<rparr>\<rparr>, message = ''Validation Failed''\<rparr>"
         and d = "''Unprocessable entity''"]
  have "snd (getFileContent example_env ''o'' ''r'' ''nowhere'' None)
       = Inl (Error ''Resource not found: Not Found'')"
    using a s404 m404 t1 example_nowhere by simp
  moreover have "snd (getFileContent example_env ''o'' ''r'' ''src/a.ts'' (Some ''broken''))
       = Inl (Error ''GitHub API error: Server Error'')"
    using b o500 m500 t2 r2 by simp
  moreover have "handleError \<lparr>status = Some 401, response = None, message = ''Bad credentials''\<rparr>
       = Error ''Authentication failed. Check your GitHub token.''"
    using c by simp
  moreover have "handleError \<lparr>status = Some 403, response = None, message = ''rate limit''\<rparr>
       = Error ''Access forbidden: Forbidden''"
    using d by (simp add: response_data_message_def)
  moreover have "handleError \<lparr>status = Some 422, response = Some \<lparr>data = Some \<lparr>data_message = Some [],
         data_documentation_url = None\<rparr>\<rparr>, message = ''Validation Failed''\<rparr>
       = Error ''Invalid request: Unprocessable entity''"
    using e by (simp add: response_data_message_def)
  ultimately show ?thesis
    using s404 m404 s500 t1 t2 r2 example_nowhere by simp
qed

text \<open>
  Claim C3 as stated fails for \<open>downloadDirectory\<close>: a listing answered with status 404
  reaches the caller with the uncategorized message, not with the message of status 404.
\<close>

theorem nested_not_found_counterexample:
  "remote_error example_env (ReposGetContent ''o'' ''r'' ''nowhere'' None) = Some example_404
   \<and> status example_404 = Some 404
   \<and> handleError example_404 = Error ''Resource not found: Not Found''
   \<and> downloadDirectory 1 example_env ''o'' ''r'' (Some ''nowhere'') None
       = Some ([ReposGetContent ''o'' ''r'' ''nowhere'' None],
               Inl (Error ''GitHub API error: Resource not found: Not Found''))
   \<and> Error ''GitHub API error: Resource not found: Not Found'' \<noteq> handleError example_404"
proof -
  have h: "handleError example_404 = Error ''Resource not found: Not Found''"
    by (simp add: handleError_def example_404_def response_data_message_def or_string_def)
  have "getRepositoryContents example_env ''o'' ''r'' (Some ''nowhere'') None
          = ([ReposGetContent ''o'' ''r'' ''nowhere'' None], Inl (handleError example_404))"
    by (simp add: getRepositoryContents_def default_to_def example_env_def
        example_getContent_def try_catch_simps)
  then have dd: "downloadDirectory 1 example_env ''o'' ''r'' (Some ''nowhere'') None
       = Some ([ReposGetContent ''o'' ''r'' ''nowhere'' None],
               Inl (handleError (handleError example_404)))"
    by simp
  have s: "status example_404 = Some 404"
    by (simp add: example_404_def)
  have h2: "handleError (handleError example_404)
              = Error ''GitHub API error: Resource not found: Not Found''"
    by (simp add: h handleError_Error)
  have ne: "Error ''GitHub API error: Resource not found: Not Found'' \<noteq> handleError example_404"
    by (simp add: h Error_def)
  show ?thesis
    by (intro conjI example_nowhere s h dd [unfolded h2] ne)
qed

subsection \<open>Files and directories\<close>

text \<open>
  Claim C4. \<open>getFileContent\<close> fails when the remote answers the path with a listing, and
  \<open>getRepositoryContents\<close> fails when it answers with a single object; the error names the
  mismatch and comes from the shape of a successful answer, it has no status.
  \<open>getFileContent\<close> returns a file only for a single object of kind \<open>file\<close>, and
  \<open>getRepositoryContents\<close> returns entries only for a listing.
\<close>

theorem path_kind_mismatch:
  "(repos_getContent env owner repo path ref = Inr (Listing items) \<longrightarrow>
      getFileContent env owner repo path ref
        = ([ReposGetContent owner repo path ref],
           Inl (Error (''GitHub API error: Path '' @ quoted path @ '' is a directory, not a file''))))
   \<and> (repos_getContent env owner repo (default_to [] dir) ref = Inr (Single d) \<longrightarrow>
      getRepositoryContents env owner repo dir ref
        = ([ReposGetContent owner repo (default_to [] dir) ref],
           Inl (Error (''GitHub API error: Path '' @ quoted (default_to [] dir)
                        @ '' is a file, not a directory''))))
   \<and> (snd (getFileContent env owner repo path ref) = Inr fc \<longrightarrow>
        (\<exists>obj. repos_getContent env owner repo path ref = Inr (Single obj) \<and> co_type obj = File))
   \<and> (snd (getRepositoryContents env owner repo dir ref) = Inr entries \<longrightarrow>
        repos_getContent env owner repo (default_to [] dir) ref = Inr (Listing entries))
   \<and> status (Error msg) = None"
proof (intro conjI impI)
  show "repos_getContent env owner repo path ref = Inr (Listing items) \<Longrightarrow>
      getFileContent env owner repo path ref
        = ([ReposGetContent owner repo path ref],
           Inl (Error (''GitHub API error: Path '' @ quoted path @ '' is a directory, not a file'')))"
    by (simp add: getFileContent_def try_catch_simps handleError_Error)
  show "repos_getContent env owner repo (default_to [] dir) ref = Inr (Single d) \<Longrightarrow>
      getRepositoryContents env owner repo dir ref
        = ([ReposGetContent owner repo (default_to [] dir) ref],
           Inl (Error (''GitHub API error: Path '' @ quoted (default_to [] dir)
                        @ '' is a file, not a directory'')))"
    by (simp add: getRepositoryContents_def Let_def try_catch_simps handleError_Error)
  show "snd (getFileContent env owner repo path ref) = Inr fc \<Longrightarrow>
        \<exists>obj. repos_getContent env owner repo path ref = Inr (Single obj) \<and> co_type obj = File"
    using getFileContent_Inr [of env owner repo path ref fc] by blast
  show "snd (getRepositoryContents env owner repo dir ref) = Inr entries \<Longrightarrow>
        repos_getContent env owner repo (default_to [] dir) ref = Inr (Listing entries)"
    by (rule getRepositoryContents_Inr)
  show "status (Error msg) = None"
    by (simp add: Error_def)
qed

theorem path_kind_mismatch_witness:
  "repos_getContent example_env ''o'' ''r'' ''src'' None
     = Inr (Listing [example_entry ''a.ts'' ''src/a.ts'' File, example_entry ''lib'' ''src/lib'' Dir])
   \<and> getFileContent example_env ''o'' ''r'' ''src'' None
       = ([ReposGetContent ''o'' ''r'' ''src'' None],
          Inl (Error (''GitHub API error: Path '' @ quoted ''src'' @ '' is a directory, not a file'')))
   \<and> repos_getContent example_env ''o'' ''r'' ''README.md'' None
       = Inr (Single (example_object ''README.md'' ''README.md'' ''base64'' ''aGk=''))
   \<and> getRepositoryContents example_env ''o'' ''r'' (Some ''README.md'') None
       = ([ReposGetContent ''o'' ''r'' ''README.md'' None],
          Inl (Error (''GitHub API error: Path '' @ quoted ''README.md''
                       @ '' is a file, not a directory'')))
   \<and> snd (getFileContent example_env ''o'' ''r'' ''README.md'' None)
       = Inr (example_files ''README.md'')
   \<and> snd (getRepositoryContents example_env ''o'' ''r'' (Some ''src'') None)
       = Inr [example_entry ''a.ts'' ''src/a.ts'' File, example_entry ''lib'' ''src/lib'' Dir]"
proof -
  have dir: "default_to [] (Some ''README.md'') = ''README.md''"
    by (simp add: default_to_def)
  have src: "default_to [] (Some ''src'') = ''src''"
    by (simp add: default_to_def)
  note a = path_kind_mismatch
      [where env = example_env and owner = "''o''" and repo = "''r''" and path = "''src''"
         and ref = None and dir = "Some ''README.md''"
         and items = "[example_entry ''a.ts'' ''src/a.ts'' File,
                       example_entry ''lib'' ''src/lib'' Dir]"
         and d = "example_object ''README.md'' ''README.md'' ''base64'' ''aGk=''"]
  have 1: "getFileContent example_env ''o'' ''r'' ''src'' None
       = ([ReposGetContent ''o'' ''r'' ''src'' None],
          Inl (Error (''GitHub API error: Path '' @ quoted ''src'' @ '' is a directory, not a file'')))"
    using a example_src by blast
  have 2: "getRepositoryContents example_env ''o'' ''r'' (Some ''README.md'') None
       = ([ReposGetContent ''o'' ''r'' ''README.md'' None],
          Inl (Error (''GitHub API error: Path '' @ quoted ''README.md''
                       @ '' is a file, not a directory'')))"
    using a example_readme unfolding dir by blast
  have 3: "snd (getFileContent example_env ''o'' ''r'' ''README.md'' None)
       = Inr (example_files ''README.md'')"
    by (simp add: example_get_readme)
  have 4: "snd (getRepositoryContents example_env ''o'' ''r'' (Some ''src'') None)
       = Inr [example_entry ''a.ts'' ''src/a.ts'' File, example_entry ''lib'' ''src/lib'' Dir]"
    using getRepositoryContents_listing [of example_env "''o''" "''r''" "Some ''src''" None]
      example_src unfolding src by simp
  show ?thesis
    by (intro conjI example_src 1 example_readme 2 3 4)
qed

text \<open>
  Claim C5. A file that \<open>getFileContent\<close> returns has as content the decoded body when the
  remote's encoding tag is \<open>base64\<close> and the body unchanged otherwise; its \<open>encoding\<close> is
  the remote's tag in both cases.
\<close>

theorem getFileContent_decodes:
  assumes "snd (getFileContent env owner repo path ref) = Inr fc"
  shows "\<exists>obj. repos_getContent env owner repo path ref = Inr (Single obj)
           \<and> fc_content fc
               = (if co_encoding obj = ''base64'' then base64_utf8 env (co_content obj)
                  else co_content obj)
           \<and> fc_encoding fc = co_encoding obj"
proof -
  from getFileContent_Inr [OF assms] obtain obj
    where "repos_getContent env owner repo path ref = Inr (Single obj)"
      and "fc = \<lparr>fc_name = co_name obj, fc_path = co_path obj,
                 fc_content =
                   (if co_encoding obj = ''base64'' then base64_utf8 env (co_content obj)
                    else co_content obj),
                 fc_encoding = co_encoding obj, fc_size = co_size obj, fc_sha = co_sha obj\<rparr>"
    by blast
  then show ?thesis by simp
qed

theorem getFileContent_decodes_witness:
  "snd (getFileContent example_env ''o'' ''r'' ''README.md'' None)
     = Inr (example_files ''README.md'')
   \<and> repos_getContent example_env ''o'' ''r'' ''README.md'' None
       = Inr (Single (example_object ''README.md'' ''README.md'' ''base64'' ''aGk=''))
   \<and> fc_content (example_files ''README.md'') = base64_utf8 example_env ''aGk=''
   \<and> fc_content (example_files ''README.md'') = ''hi''
   \<and> fc_encoding (example_files ''README.md'') = ''base64''
   \<and> snd (getFileContent example_env ''o'' ''r'' ''src/lib/b.ts'' None)
     = Inr (example_files ''src/lib/b.ts'')
   \<and> repos_getContent example_env ''o'' ''r'' ''src/lib/b.ts'' None
       = Inr (Single (example_object ''b.ts'' ''src/lib/b.ts'' ''none'' ''plain''))
   \<and> fc_content (example_files ''src/lib/b.ts'') = ''plain''
   \<and> fc_encoding (example_files ''src/lib/b.ts'') = ''none''"
proof -
  have 1: "snd (getFileContent example_env ''o'' ''r'' ''README.md'' None)
     = Inr (example_files ''README.md'')"
    by (simp add: example_get_readme)
  have 2: "snd (getFileContent example_env ''o'' ''r'' ''src/lib/b.ts'' None)
     = Inr (example_files ''src/lib/b.ts'')"
    by (simp add: example_get_b_ts)
  from getFileContent_decodes [OF 1] have a:
    "fc_content (example_files ''README.md'') = base64_utf8 example_env ''aGk=''
     \<and> fc_encoding (example_files ''README.md'') = ''base64''"
    by (simp add: example_readme example_object_def)
  from getFileContent_decodes [OF 2] have b:
    "fc_content (example_files ''src/lib/b.ts'') = ''plain''
     \<and> fc_encoding (example_files ''src/lib/b.ts'') = ''none''"
    by (simp add: example_b_ts example_object_def)
  have c: "fc_content (example_files ''README.md'') = ''hi''"
    by (simp add: example_files_def)
  show ?thesis
    using 1 2 a b c example_readme example_b_ts by simp
qed

subsection \<open>Archives\<close>

text \<open>
  Claim C6. Without a format \<open>getRepositoryArchive\<close> asks for a \<open>zipball\<close>, without a ref
  for \<open>HEAD\<close>. It sends the one request that resolves the download location and nothing
  else, and returns that location with the file name, the ref and the format.
\<close>

theorem getRepositoryArchive_defaults:
  "getRepositoryArchive env owner repo None ref
     = getRepositoryArchive env owner repo (Some zipball) ref
   \<and> getRepositoryArchive env owner repo fmt None
     = getRepositoryArchive env owner repo fmt (Some ''HEAD'')
   \<and> fst (getRepositoryArchive env owner repo None None)
     = [ReposDownloadArchive owner repo zipball ''HEAD'']
   \<and> fst (getRepositoryArchive env owner repo (Some format) (Some (c # cs)))
     = [ReposDownloadArchive owner repo format (c # cs)]
   \<and> (repos_downloadArchive env owner repo zipball ''HEAD'' = Inr url \<longrightarrow>
        snd (getRepositoryArchive env owner repo None None)
          = Inr \<lparr>ra_downloadUrl = url, ra_filename = repo @ ''-HEAD.zip'', ra_ref = ''HEAD'',
                 ra_format = zipball\<rparr>)
   \<and> (repos_downloadArchive env owner repo format (c # cs) = Inr url \<longrightarrow>
        snd (getRepositoryArchive env owner repo (Some format) (Some (c # cs)))
          = Inr \<lparr>ra_downloadUrl = url,
                 ra_filename = repo @ ''-'' @ (c # cs) @ ''.''
                                 @ (if format = zipball then ''zip'' else ''tar.gz''),
                 ra_ref = c # cs, ra_format = format\<rparr>)"
  by (intro conjI impI)
    (simp_all add: getRepositoryArchive_unfold default_to_simps or_string_simps
       cong: sum.case_cong)

theorem getRepositoryArchive_defaults_witness:
  "repos_downloadArchive example_env ''o'' ''r'' zipball ''HEAD''
     = Inr ''https://codeload.example/r/HEAD''
   \<and> getRepositoryArchive example_env ''o'' ''r'' None None
       = ([ReposDownloadArchive ''o'' ''r'' zipball ''HEAD''],
          Inr \<lparr>ra_downloadUrl = ''https://codeload.example/r/HEAD'', ra_filename = ''r-HEAD.zip'',
                ra_ref = ''HEAD'', ra_format = zipball\<rparr>)
   \<and> repos_downloadArchive example_env ''o'' ''r'' tarball ''v1''
     = Inr ''https://codeload.example/r/v1''
   \<and> getRepositoryArchive example_env ''o'' ''r'' (Some tarball) (Some ''v1'')
       = ([ReposDownloadArchive ''o'' ''r'' tarball ''v1''],
          Inr \<lparr>ra_downloadUrl = ''https://codeload.example/r/v1'', ra_filename = ''r-v1.tar.gz'',
                ra_ref = ''v1'', ra_format = tarball\<rparr>)"
proof -
  have dl1: "repos_downloadArchive example_env ''o'' ''r'' zipball ''HEAD''
               = Inr ''https://codeload.example/r/HEAD''"
    and dl2: "repos_downloadArchive example_env ''o'' ''r'' tarball (CHR ''v'' # ''1'')
               = Inr ''https://codeload.example/r/v1''"
    by (simp_all add: example_env_downloadArchive)
  note a = getRepositoryArchive_defaults
      [where env = example_env and owner = "''o''" and repo = "''r''" and format = tarball
         and ref = None and fmt = None
         and c = "CHR ''v''" and cs = "''1''" and url = "''https://codeload.example/r/HEAD''"]
  note b = getRepositoryArchive_defaults
      [where env = example_env and owner = "''o''" and repo = "''r''" and format = tarball
         and ref = None and fmt = None
         and c = "CHR ''v''" and cs = "''1''" and url = "''https://codeload.example/r/v1''"]
  have f1: "fst (getRepositoryArchive example_env ''o'' ''r'' None None)
              = [ReposDownloadArchive ''o'' ''r'' zipball ''HEAD'']"
    using a by blast
  have s1: "snd (getRepositoryArchive example_env ''o'' ''r'' None None)
              = Inr \<lparr>ra_downloadUrl = ''https://codeload.example/r/HEAD'',
                     ra_filename = ''r'' @ ''-HEAD.zip'', ra_ref = ''HEAD'', ra_format = zipball\<rparr>"
    using a dl1 by blast
  have f2: "fst (getRepositoryArchive example_env ''o'' ''r'' (Some tarball) (Some (CHR ''v'' # ''1'')))
              = [ReposDownloadArchive ''o'' ''r'' tarball (CHR ''v'' # ''1'')]"
    using b by blast
  have s2: "snd (getRepositoryArchive example_env ''o'' ''r'' (Some tarball) (Some (CHR ''v'' # ''1'')))
              = Inr \<lparr>ra_downloadUrl = ''https://codeload.example/r/v1'',
                     ra_filename = ''r'' @ ''-'' @ (CHR ''v'' # ''1'') @ ''.''
                                     @ (if tarball = zipball then ''zip'' else ''tar.gz''),
                     ra_ref = CHR ''v'' # ''1'', ra_format = tarball\<rparr>"
    using b dl2 by blast
  show ?thesis
    using dl1 dl2 by (simp add: prod_eq_iff f1 s1 f2 s2)
qed

text \<open>
  Claim C7. \<open>downloadRepositoryArchive\<close> first resolves the location through
  \<open>getRepositoryArchive\<close> and then fetches it. When the location was resolved and the fetch
  answers with a status that is not a success, the call fails with the download failure,
  which carries the status text; when it answers with a success, the bytes of the body
  are returned. When the location cannot be resolved, nothing is fetched.
\<close>

theorem downloadRepositoryArchive_fetches:
  "(getRepositoryArchive env owner repo fmt ref = (t, Inr archive) \<longrightarrow>
      fst (downloadRepositoryArchive env owner repo fmt ref) = t @ [Fetch (ra_downloadUrl archive)]
      \<and> (fetch env (ra_downloadUrl archive) = Inr resp \<and> \<not> fr_ok resp \<longrightarrow>
           snd (downloadRepositoryArchive env owner repo fmt ref)
             = Inl (Error (''GitHub API error: Failed to download archive: ''
                            @ fr_statusText resp)))
      \<and> (fetch env (ra_downloadUrl archive) = Inr resp \<and> fr_ok resp
           \<and> fr_arrayBuffer resp = Inr bytes \<longrightarrow>
           snd (downloadRepositoryArchive env owner repo fmt ref) = Inr bytes))
   \<and> (getRepositoryArchive env owner repo fmt ref = (t, Inl e) \<longrightarrow>
      downloadRepositoryArchive env owner repo fmt ref = (t, Inl (handleError e)))"
  by (simp add: downloadRepositoryArchive_def Let_def getRepositoryArchive_format
      try_catch_simps handleError_Error)

theorem downloadRepositoryArchive_fetches_witness:
  "getRepositoryArchive example_env ''o'' ''r'' None None
       = ([ReposDownloadArchive ''o'' ''r'' zipball ''HEAD''],
          Inr \<lparr>ra_downloadUrl = ''https://codeload.example/r/HEAD'', ra_filename = ''r-HEAD.zip'',
                ra_ref = ''HEAD'', ra_format = zipball\<rparr>)
   \<and> downloadRepositoryArchive example_env ''o'' ''r'' None None
       = ([ReposDownloadArchive ''o'' ''r'' zipball ''HEAD'',
           Fetch ''https://codeload.example/r/HEAD''], Inr [0x50, 0x4B])
   \<and> getRepositoryArchive example_env ''o'' ''r'' (Some tarball) (Some ''v1'')
       = ([ReposDownloadArchive ''o'' ''r'' tarball ''v1''],
          Inr \<lparr>ra_downloadUrl = ''https://codeload.example/r/v1'', ra_filename = ''r-v1.tar.gz'',
                ra_ref = ''v1'', ra_format = tarball\<rparr>)
   \<and> downloadRepositoryArchive example_env ''o'' ''r'' (Some tarball) (Some ''v1'')
       = ([ReposDownloadArchive ''o'' ''r'' tarball ''v1'',
           Fetch ''https://codeload.example/r/v1''],
          Inl (Error ''GitHub API error: Failed to download archive: Forbidden''))"
proof -
  have 1: "getRepositoryArchive example_env ''o'' ''r'' None None
       = ([ReposDownloadArchive ''o'' ''r'' zipball ''HEAD''],
          Inr \<lparr>ra_downloadUrl = ''https://codeload.example/r/HEAD'', ra_filename = ''r-HEAD.zip'',
                ra_ref = ''HEAD'', ra_format = zipball\<rparr>)"
    by (simp add: getRepositoryArchive_unfold default_to_simps or_string_simps
        example_env_downloadArchive)
  have 2: "getRepositoryArchive example_env ''o'' ''r'' (Some tarball) (Some ''v1'')
       = ([ReposDownloadArchive ''o'' ''r'' tarball ''v1''],
          Inr \<lparr>ra_downloadUrl = ''https://codeload.example/r/v1'', ra_filename = ''r-v1.tar.gz'',
                ra_ref = ''v1'', ra_format = tarball\<rparr>)"
    by (simp add: getRepositoryArchive_unfold default_to_simps or_string_simps
        example_env_downloadArchive)
  note a = downloadRepositoryArchive_fetches
      [where env = example_env and owner = "''o''" and repo = "''r''" and fmt = None
         and ref = None and t = "[ReposDownloadArchive ''o'' ''r'' zipball ''HEAD'']"
         and archive = "\<lparr>ra_downloadUrl = ''https://codeload.example/r/HEAD'',
                ra_filename = ''r-HEAD.zip'', ra_ref = ''HEAD'', ra_format = zipball\<rparr>"
         and resp = "\<lparr>fr_ok = True, fr_statusText = ''OK'', fr_arrayBuffer = Inr [0x50, 0x4B]\<rparr>"
         and bytes = "[0x50, 0x4B]"]
  note b = downloadRepositoryArchive_fetches
      [where env = example_env and owner = "''o''" and repo = "''r''" and fmt = "Some tarball"
         and ref = "Some ''v1''" and t = "[ReposDownloadArchive ''o'' ''r'' tarball ''v1'']"
         and archive = "\<lparr>ra_downloadUrl = ''https://codeload.example/r/v1'',
                ra_filename = ''r-v1.tar.gz'', ra_ref = ''v1'', ra_format = tarball\<rparr>"
         and resp = "\<lparr>fr_ok = False, fr_statusText = ''Forbidden'',
                       fr_arrayBuffer = Inr [0x50, 0x4B]\<rparr>"]
  have 3: "downloadRepositoryArchive example_env ''o'' ''r'' None None
       = ([ReposDownloadArchive ''o'' ''r'' zipball ''HEAD'',
           Fetch ''https://codeload.example/r/HEAD''], Inr [0x50, 0x4B])"
    using a 1 by (simp add: example_env_fetch prod_eq_iff)
  have 4: "downloadRepositoryArchive example_env ''o'' ''r'' (Some tarball) (Some ''v1'')
       = ([ReposDownloadArchive ''o'' ''r'' tarball ''v1'',
           Fetch ''https://codeload.example/r/v1''],
          Inl (Error ''GitHub API error: Failed to download archive: Forbidden''))"
    using b 2 by (simp add: example_env_fetch prod_eq_iff)
  show ?thesis
    by (intro conjI 1 2 3 4)
qed

subsection \<open>Code search\<close>

text \<open>
  Claim C8. The query that \<open>searchCode\<close> submits is the caller's query followed by
  \<open>repo:owner/repo\<close> when owner and repo are both given, by \<open>user:owner\<close> when only the owner
  is given, and the caller's query itself when no owner is given; nothing else of the
  request depends on them. Given means present and not the empty string.
\<close>

theorem searchCode_query:
  "(truthy (Some ow) \<and> truthy (Some rp) \<longrightarrow>
      fst (searchCode env query (Some ow) (Some rp))
        = [SearchCode (query @ '' repo:'' @ ow @ ''/'' @ rp) 30])
   \<and> (truthy (Some ow) \<and> \<not> truthy repo \<longrightarrow>
      fst (searchCode env query (Some ow) repo) = [SearchCode (query @ '' user:'' @ ow) 30])
   \<and> (\<not> truthy owner \<longrightarrow> fst (searchCode env query owner repo) = [SearchCode query 30])
   \<and> (truthy s \<longleftrightarrow> s \<noteq> None \<and> s \<noteq> Some [])
   \<and> (fst (searchCode env query owner repo) = [SearchCode q n] \<longrightarrow>
        snd (searchCode env query owner repo)
          = try_catch (search_code env q n))"
proof (intro conjI impI)
  show "truthy (Some ow) \<and> truthy (Some rp) \<Longrightarrow>
      fst (searchCode env query (Some ow) (Some rp))
        = [SearchCode (query @ '' repo:'' @ ow @ ''/'' @ rp) 30]"
    by (simp add: searchCode_def Let_def str_def)
  show "truthy (Some ow) \<and> \<not> truthy repo \<Longrightarrow>
      fst (searchCode env query (Some ow) repo) = [SearchCode (query @ '' user:'' @ ow) 30]"
    by (simp add: searchCode_def Let_def str_def)
  show "\<not> truthy owner \<Longrightarrow> fst (searchCode env query owner repo) = [SearchCode query 30]"
    by (simp add: searchCode_def Let_def)
  show "truthy s \<longleftrightarrow> s \<noteq> None \<and> s \<noteq> Some []"
    by (cases s) (simp_all add: truthy_def)
  show "fst (searchCode env query owner repo) = [SearchCode q n] \<Longrightarrow>
        snd (searchCode env query owner repo)
          = try_catch (search_code env q n)"
    by (cases "search_code env q n")
      (auto simp add: searchCode_def Let_def try_catch_simps rebuild_code_result)
qed

theorem searchCode_query_witness:
  "truthy (Some ''o'') \<and> truthy (Some ''r'')
   \<and> fst (searchCode example_env ''q'' (Some ''o'') (Some ''r''))
       = [SearchCode ''q repo:o/r'' 30]
   \<and> \<not> truthy None
   \<and> fst (searchCode example_env ''q'' (Some ''o'') None) = [SearchCode ''q user:o'' 30]
   \<and> fst (searchCode example_env ''q'' None None) = [SearchCode ''q'' 30]
   \<and> \<not> truthy (Some [])
   \<and> fst (searchCode example_env ''q'' (Some []) (Some ''r'')) = [SearchCode ''q'' 30]
   \<and> snd (searchCode example_env ''q'' (Some ''o'') (Some ''r'')) = Inr []"
proof -
  have t: "truthy (Some ''o'')" "truthy (Some ''r'')" "\<not> truthy None" "\<not> truthy (Some [])"
    by (simp_all add: truthy_def)
  have sc: "search_code example_env q n = Inr []" for q n
    by (simp add: example_env_def)
  note a = searchCode_query
      [where env = example_env and query = "''q''" and ow = "''o''" and rp = "''r''"
         and repo = None and owner = None and s = None]
  note b = searchCode_query
      [where env = example_env and query = "''q''" and ow = "''o''" and rp = "''r''"
         and repo = "Some ''r''" and owner = "Some []" and s = None]
  note c = searchCode_query
      [where env = example_env and query = "''q''" and ow = "''o''" and rp = "''r''"
         and repo = "Some ''r''" and owner = "Some ''o''" and s = None
         and q = "''q'' @ '' repo:'' @ ''o'' @ ''/'' @ ''r''" and n = 30]
  have 1: "fst (searchCode example_env ''q'' (Some ''o'') (Some ''r''))
       = [SearchCode (''q'' @ '' repo:'' @ ''o'' @ ''/'' @ ''r'') 30]"
    using a t by blast
  have 2: "fst (searchCode example_env ''q'' (Some ''o'') None)
       = [SearchCode (''q'' @ '' user:'' @ ''o'') 30]"
    using a t by blast
  have 3: "fst (searchCode example_env ''q'' None None) = [SearchCode ''q'' 30]"
    using a t by blast
  have 4: "fst (searchCode example_env ''q'' (Some []) (Some ''r'')) = [SearchCode ''q'' 30]"
    using b t by blast
  have 5: "snd (searchCode example_env ''q'' (Some ''o'') (Some ''r''))
             = try_catch (search_code example_env (''q'' @ '' repo:'' @ ''o'' @ ''/'' @ ''r'') 30)"
    using c 1 by blast
  show ?thesis
    using t 1 2 3 4 5 by (simp add: sc try_catch_simps)
qed

subsection \<open>Every failure is normalized\<close>



subsection \<open>Downloading a file\<close>

text \<open>
  Claim C10. \<open>downloadFile\<close> and \<open>getFileContent\<close> are the same operation: the same
  requests, and the same value or the same error.
\<close>

theorem downloadFile_getFileContent:
  "downloadFile env owner repo path ref = getFileContent env owner repo path ref"
  by (simp add: downloadFile_def)

theorem downloadFile_getFileContent_witness:
  "downloadFile example_env ''o'' ''r'' ''README.md'' None
     = ([ReposGetContent ''o'' ''r'' ''README.md'' None], Inr (example_files ''README.md''))
   \<and> downloadFile example_env ''o'' ''r'' ''src'' None
     = getFileContent example_env ''o'' ''r'' ''src'' None"
  using downloadFile_getFileContent [of example_env "''o''" "''r''" "''README.md''" None]
    downloadFile_getFileContent [of example_env "''o''" "''r''" "''src''" None]
  by (simp add: example_get_readme)

end
